theory Spec2Isabelle
  imports Complex_Main "HOL-Library.Sublist"
begin

section \<open>Configuration (include/testcracks.h, lines 49-63)\<close>

text \<open>
  The four capacities are preprocessor constants with these defaults. They are kept as
  named constants so that the theorems below do not depend on the particular numbers
  beyond what each proof states.
\<close>

definition TC_MAX_ERRORS :: nat where
  "TC_MAX_ERRORS = 50"

definition TC_MAX_MSG_LEN :: nat where
  "TC_MAX_MSG_LEN = 512"

definition TC_MAX_TESTS_PER_SUITE :: nat where
  "TC_MAX_TESTS_PER_SUITE = 256"

definition TC_MAX_SUITES :: nat where
  "TC_MAX_SUITES = 64"

section \<open>Core types (include/testcracks.h, lines 69-124)\<close>

datatype ResultTag = TC_PASS | TC_FAIL | TC_SKIP

text \<open>
  A \<open>char[TC_MAX_MSG_LEN]\<close> buffer holding a NUL-terminated string is modelled by the
  string before the terminator. A \<open>const char*\<close> argument that may be \<open>NULL\<close> is a
  \<open>string option\<close>.
\<close>

record TestError =
  message :: string
  expected :: string
  actual :: string

text \<open>
  \<open>errors\<close> is the array \<open>TestError errors[TC_MAX_ERRORS]\<close>: a list that the
  constructors create with exactly \<open>TC_MAX_ERRORS\<close> entries, of which the first
  \<open>error_count\<close> are in use. \<open>error_count\<close> is a C \<open>int\<close>. \<open>elapsed_ms\<close> is a C
  \<open>double\<close>; it is modelled as a real number, the engine only stores zero or the
  difference of two clock readings in it.
\<close>

record TestResult =
  tag :: ResultTag
  errors :: "TestError list"
  error_count :: int
  elapsed_ms :: real

record RunSummary =
  passed :: int
  failed :: int
  skipped :: int
  total_ms :: real

text \<open>What \<open>memset(&r, 0, sizeof(r))\<close> leaves in each of the structures.\<close>

definition zero_error :: TestError where
  "zero_error = \<lparr>message = [], expected = [], actual = []\<rparr>"

definition zero_result :: TestResult where
  "zero_result =
     \<lparr>tag = TC_PASS, errors = replicate TC_MAX_ERRORS zero_error,
      error_count = 0, elapsed_ms = 0\<rparr>"

definition zero_summary :: RunSummary where
  "zero_summary = \<lparr>passed = 0, failed = 0, skipped = 0, total_ms = 0\<rparr>"

text \<open>
  The counters are C \<open>int\<close>s, the integers from \<open>-2^31\<close> to \<open>2^31 - 1\<close>. Where the
  program adds two counters the sum wraps around, as the compiled code does (ISO C leaves the
  overflow undefined). An integer outside that range is no value of the program; a sum with
  such an operand is left as it is.
\<close>

definition c_int :: "int \<Rightarrow> bool" where
  "c_int x = (- (2 ^ 31) \<le> x \<and> x < 2 ^ 31)"

definition c_int_add :: "int \<Rightarrow> int \<Rightarrow> int" where
  "c_int_add a b =
     (if c_int a \<and> c_int b then (a + b + 2 ^ 31) mod 2 ^ 32 - 2 ^ 31 else a + b)"

text \<open>
  The representation invariant of a \<open>TestResult\<close>: the array has its declared size and
  \<open>error_count\<close> counts entries of it.
\<close>

definition result_wf :: "TestResult \<Rightarrow> bool" where
  "result_wf r =
     (length (errors r) = TC_MAX_ERRORS \<and> 0 \<le> error_count r \<and>
      error_count r \<le> int TC_MAX_ERRORS)"

section \<open>Internal helpers (src/testcracks.c, lines 27-43)\<close>

text \<open>
  \<open>tc__safe_copy(dst, src, max)\<close>: the string left in \<open>dst\<close>. A \<open>NULL\<close> source gives
  the empty string, a source of \<open>max\<close> or more characters is cut to \<open>max - 1\<close>.
\<close>

definition tc__safe_copy :: "string option \<Rightarrow> nat \<Rightarrow> string" where
  "tc__safe_copy src mx =
     (case src of
        None \<Rightarrow> []
      | Some s \<Rightarrow> (if length s \<ge> mx then take (mx - 1) s else s))"

definition tc__append_error ::
  "TestResult \<Rightarrow> string option \<Rightarrow> string option \<Rightarrow> string option \<Rightarrow> TestResult" where
  "tc__append_error r msg expd act =
     (if error_count r < int TC_MAX_ERRORS then
        r\<lparr>errors := (errors r)[nat (error_count r) :=
               \<lparr>message = tc__safe_copy msg TC_MAX_MSG_LEN,
                expected = tc__safe_copy expd TC_MAX_MSG_LEN,
                actual = tc__safe_copy act TC_MAX_MSG_LEN\<rparr>],
          error_count := error_count r + 1\<rparr>
      else r)"

section \<open>Result constructors and predicates (src/testcracks.c, lines 61-98)\<close>

definition tc_pass :: TestResult where
  "tc_pass = zero_result\<lparr>tag := TC_PASS\<rparr>"

definition tc_fail :: "string option \<Rightarrow> TestResult" where
  "tc_fail msg = tc__append_error (zero_result\<lparr>tag := TC_FAIL\<rparr>) msg (Some []) (Some [])"

definition tc_fail_with ::
  "string option \<Rightarrow> string option \<Rightarrow> string option \<Rightarrow> TestResult" where
  "tc_fail_with msg expd act = tc__append_error (zero_result\<lparr>tag := TC_FAIL\<rparr>) msg expd act"

definition tc_skip :: "string option \<Rightarrow> TestResult" where
  "tc_skip reason = tc__append_error (zero_result\<lparr>tag := TC_SKIP\<rparr>) reason (Some []) (Some [])"

definition tc_is_pass :: "TestResult \<Rightarrow> bool" where
  "tc_is_pass r = (tag r = TC_PASS)"

definition tc_is_fail :: "TestResult \<Rightarrow> bool" where
  "tc_is_fail r = (tag r = TC_FAIL)"

definition tc_is_skip :: "TestResult \<Rightarrow> bool" where
  "tc_is_skip r = (tag r = TC_SKIP)"

section \<open>Composition (src/testcracks.c, lines 104-125)\<close>

text \<open>
  One of the two copy loops of \<open>tc_combine\<close>:
  \<^verbatim>\<open>for (; i < src.error_count && r.error_count < TC_MAX_ERRORS; i++) {
       r.errors[r.error_count] = src.errors[i]; r.error_count++; }\<close>
  started at index \<open>i\<close>.
\<close>

function tc__copy_errors :: "TestResult \<Rightarrow> int \<Rightarrow> TestResult \<Rightarrow> TestResult" where
  "tc__copy_errors src i r =
     (if i < error_count src \<and> error_count r < int TC_MAX_ERRORS then
        tc__copy_errors src (i + 1)
          (r\<lparr>errors := (errors r)[nat (error_count r) := errors src ! nat i],
             error_count := error_count r + 1\<rparr>)
      else r)"
  by pat_completeness auto
termination
  by (relation "measure (\<lambda>(src, i, r). nat (error_count src - i))") auto

definition tc_combine :: "TestResult \<Rightarrow> TestResult \<Rightarrow> TestResult" where
  "tc_combine a b =
     (if tag a = TC_SKIP then a
      else if tag b = TC_SKIP then b
      else if tag a = TC_PASS \<and> tag b = TC_PASS then a
      else tc__copy_errors b 0 (tc__copy_errors a 0 (zero_result\<lparr>tag := TC_FAIL\<rparr>)))"

text \<open>
  The error list of a result as the specification speaks of it: the entries of the array
  that are in use.
\<close>

definition used_errors :: "TestResult \<Rightarrow> TestError list" where
  "used_errors r = take (nat (error_count r)) (errors r)"

section \<open>Tests and suites (include/testcracks.h, lines 92-117)\<close>

text \<open>
  User code is a state transformer on a world \<open>'w\<close> that the engine never looks into;
  the environment handle \<open>void* env\<close> is an \<open>'e option\<close>, \<open>None\<close> for \<open>NULL\<close>. A setup
  function receives the address of a handle that is \<open>NULL\<close> and returns its status
  together with the handle it left there.

  A test name is a string; the \<open>NULL\<close> name that ends a \<open>Test[]\<close> literal is the end of
  the list handed to \<open>tc_suite_with\<close>, and the \<open>NULL\<close>-terminated \<open>Suite**\<close> and
  \<open>argv\<close> arrays are lists as well. \<open>tests\<close> is the array
  \<open>Test tests[TC_MAX_TESTS_PER_SUITE]\<close>, of which the first \<open>test_count\<close> entries are
  in use; a zeroed entry, whose name pointer is \<open>NULL\<close> in C, has the empty name here, and
  no loop of the engine reads an entry at or beyond \<open>test_count\<close>.
\<close>

type_synonym ('w, 'e) TestFn = "'e option \<Rightarrow> 'w \<Rightarrow> TestResult \<times> 'w"

type_synonym ('w, 'e) SetupFn = "'w \<Rightarrow> (int \<times> 'e option) \<times> 'w"

type_synonym ('w, 'e) TeardownFn = "'e option \<Rightarrow> 'w \<Rightarrow> 'w"

record ('w, 'e) Test =
  name :: string
  fn :: "('w, 'e) TestFn option"
  skip_reason :: "string option"

record ('w, 'e) Suite =
  suite_name :: string
  tests :: "('w, 'e) Test list"
  test_count :: int
  setup_fn :: "('w, 'e) SetupFn option"
  teardown_fn :: "('w, 'e) TeardownFn option"

definition zero_test :: "('w, 'e) Test" where
  "zero_test = \<lparr>name = [], fn = None, skip_reason = None\<rparr>"

definition zero_suite :: "('w, 'e) Suite" where
  "zero_suite =
     \<lparr>suite_name = [], tests = replicate TC_MAX_TESTS_PER_SUITE zero_test, test_count = 0,
      setup_fn = None, teardown_fn = None\<rparr>"

section \<open>Suite construction (src/testcracks.c, lines 431-460)\<close>

text \<open>
  The loop of \<open>tc_suite_with\<close>,
  \<^verbatim>\<open>while (tests[i].name != NULL && i < TC_MAX_TESTS_PER_SUITE) { s.tests[i] = tests[i]; i++; }
  s.test_count = i;\<close>
  over the entries before the terminator.
\<close>

fun tc__suite_loop ::
  "('w, 'e) Test list \<Rightarrow> nat \<Rightarrow> ('w, 'e) Suite \<Rightarrow> ('w, 'e) Suite" where
  "tc__suite_loop [] i s = s\<lparr>test_count := int i\<rparr>"
| "tc__suite_loop (t # ts) i s =
     (if i < TC_MAX_TESTS_PER_SUITE then tc__suite_loop ts (Suc i) (s\<lparr>tests := (tests s)[i := t]\<rparr>)
      else s\<lparr>test_count := int i\<rparr>)"

definition tc_suite_with ::
  "string \<Rightarrow> ('w, 'e) SetupFn option \<Rightarrow> ('w, 'e) TeardownFn option \<Rightarrow> ('w, 'e) Test list \<Rightarrow>
   ('w, 'e) Suite" where
  "tc_suite_with nm su td ts =
     tc__suite_loop ts 0 (zero_suite\<lparr>suite_name := nm, setup_fn := su, teardown_fn := td\<rparr>)"

definition tc_suite :: "string \<Rightarrow> ('w, 'e) Test list \<Rightarrow> ('w, 'e) Suite" where
  "tc_suite nm ts = tc_suite_with nm None None ts"

definition tc_skip_test :: "string \<Rightarrow> string option \<Rightarrow> ('w, 'e) Test" where
  "tc_skip_test nm reason = (zero_test :: ('w, 'e) Test)\<lparr>name := nm, fn := None, skip_reason := reason\<rparr>"

section \<open>The state the engine runs in\<close>

text \<open>
  Every invocation of a user function is recorded in \<open>calls\<close>, so that "is never invoked"
  is a statement about the state.
\<close>

datatype call = Call_setup string | Call_test string | Call_teardown string

text \<open>
  \<^item> \<open>world\<close>: whatever user code can change; only user functions touch it.
  \<^item> \<open>stdout\<close>, \<open>stderr\<close>: the text written by the engine, one entry per \<open>printf\<close>.
  \<^item> \<open>clock\<close>, \<open>ticks\<close>: the readings of \<open>tc__get_time_ms\<close>; the \<open>n\<close>-th call returns
    \<open>clock n\<close>, for an arbitrary \<open>clock\<close>.
  \<^item> \<open>files\<close>, \<open>creatable\<close>: the files the engine writes, and whether
    \<open>fopen(path, "w")\<close> succeeds for a path.
  \<^item> \<open>tc__results\<close>, \<open>tc__result_counts\<close>: the static arrays of
    src/testcracks.c, lines 509-510, indexed by position; they are only written below the
    capacities.
  \<^item> \<open>fault\<close>: set when the report writer has read or written outside an array, where the
    behaviour of the C program is undefined.
\<close>

record 'w sys =
  world :: 'w
  calls :: "call list"
  stdout :: "string list"
  stderr :: "string list"
  clock :: "nat \<Rightarrow> real"
  ticks :: nat
  files :: "string \<Rightarrow> string option"
  creatable :: "string \<Rightarrow> bool"
  tc__results :: "nat \<Rightarrow> nat \<Rightarrow> TestResult"
  tc__result_counts :: "nat \<Rightarrow> int"
  fault :: bool

definition tc__get_time_ms :: "'w sys \<Rightarrow> real \<times> 'w sys" where
  "tc__get_time_ms s = (clock s (ticks s), s\<lparr>ticks := Suc (ticks s)\<rparr>)"

definition printf :: "string \<Rightarrow> 'w sys \<Rightarrow> 'w sys" where
  "printf txt s = s\<lparr>stdout := stdout s @ [txt]\<rparr>"

definition eprintf :: "string \<Rightarrow> 'w sys \<Rightarrow> 'w sys" where
  "eprintf txt s = s\<lparr>stderr := stderr s @ [txt]\<rparr>"

text \<open>
  The \<open>%d\<close> conversion. The \<open>%.Nf\<close> conversion of a \<open>double\<close> belongs to the C library;
  it is the parameter \<open>ff\<close> (precision, then value) of every function that prints a time.
\<close>

fun show_nat :: "nat \<Rightarrow> string" where
  "show_nat n =
     (if n < 10 then [''0123456789'' ! n]
      else show_nat (n div 10) @ [''0123456789'' ! (n mod 10)])"

definition show_int :: "int \<Rightarrow> string" where
  "show_int i = (if i < 0 then CHR ''-'' # show_nat (nat (- i)) else show_nat (nat i))"

definition nl :: string where
  "nl = [CHR 0x0A]"

definition TC__GREEN :: string where
  "TC__GREEN = CHR 0x1B # ''[32m''"

definition TC__RED :: string where
  "TC__RED = CHR 0x1B # ''[31m''"

definition TC__YELLOW :: string where
  "TC__YELLOW = CHR 0x1B # ''[33m''"

definition TC__RESET :: string where
  "TC__RESET = CHR 0x1B # ''[0m''"

section \<open>Runners (src/testcracks.c, lines 466-603)\<close>

definition tc_run_test ::
  "('w, 'e) Test \<Rightarrow> 'e option \<Rightarrow> 'w sys \<Rightarrow> TestResult \<times> 'w sys" where
  "tc_run_test test env s =
     (case fn test of
        None \<Rightarrow>
          (tc_skip (case skip_reason test of Some reason \<Rightarrow> Some reason | None \<Rightarrow> Some ''skipped''), s)
      | Some f \<Rightarrow>
          (let (start, s1) = tc__get_time_ms s;
               (r, w) = f env (world s1);
               s2 = s1\<lparr>world := w, calls := calls s1 @ [Call_test (name test)]\<rparr>;
               (stop, s3) = tc__get_time_ms s2
           in (r\<lparr>elapsed_ms := stop - start\<rparr>, s3)))"

text \<open>The lines \<open>tc_print_result\<close> prints for the \<open>i\<close>-th captured error of a failure.\<close>

definition tc__print_error :: "string \<Rightarrow> TestError \<Rightarrow> string list" where
  "tc__print_error color e =
     (''      '' @ color @ message e @ TC__RESET @ nl) #
     (if expected e \<noteq> [] then
        [''        Expected: '' @ expected e @ nl, ''        Actual:   '' @ actual e @ nl]
      else [])"

definition tc_print_result ::
  "(nat \<Rightarrow> real \<Rightarrow> string) \<Rightarrow> string \<Rightarrow> TestResult \<Rightarrow> 'w sys \<Rightarrow> 'w sys" where
  "tc_print_result ff nm result s =
     (let (icon, color) =
            (case tag result of
               TC_PASS \<Rightarrow> ([CHR 0xE2, CHR 0x9C, CHR 0x93], TC__GREEN)
             | TC_FAIL \<Rightarrow> ([CHR 0xE2, CHR 0x9C, CHR 0x97], TC__RED)
             | TC_SKIP \<Rightarrow> ([CHR 0xE2, CHR 0x97, CHR 0x8B], TC__YELLOW));
          s1 = printf (''  '' @ color @ icon @ '' '' @ nm @ TC__RESET @ '' ('' @
                       ff 2 (elapsed_ms result) @ ''ms)'' @ nl) s
      in if tag result = TC_FAIL then
           s1\<lparr>stdout := stdout s1 @
                 concat (map (\<lambda>i. tc__print_error color (errors result ! i))
                           [0 ..< nat (error_count result)])\<rparr>
         else if tag result = TC_SKIP \<and> error_count result > 0 then
           printf (''      '' @ color @ ''['' @ message (errors result ! 0) @ '']'' @ TC__RESET @ nl) s1
         else s1)"

text \<open>
  The test loop of \<open>tc__run_suite_ex\<close> (lines 532-546), from index \<open>i\<close>, with the handle
  \<open>env\<close> that setup left. A counter of the summary grows by one at most once per test, so
  in a run started from the zeroed summary it stays below \<open>test_count\<close> and cannot
  overflow.
\<close>

function tc__run_tests ::
  "(nat \<Rightarrow> real \<Rightarrow> string) \<Rightarrow> ('w, 'e) Suite \<Rightarrow> int \<Rightarrow> 'e option \<Rightarrow> int \<Rightarrow>
   RunSummary \<Rightarrow> 'w sys \<Rightarrow> RunSummary \<times> 'w sys" where
  "tc__run_tests ff suite suite_idx env i summary s =
     (if i < test_count suite then
        (let rs = tc_run_test (tests suite ! nat i) env s;
             r = fst rs;
             s1 = tc_print_result ff (name (tests suite ! nat i)) r (snd rs);
             s2 = (if 0 \<le> suite_idx \<and> suite_idx < int TC_MAX_SUITES then
                     s1\<lparr>tc__results := (tc__results s1)
                            (nat suite_idx := (tc__results s1 (nat suite_idx))(nat i := r)),
                        tc__result_counts := (tc__result_counts s1)(nat suite_idx := i + 1)\<rparr>
                   else s1);
             summary1 =
               (case tag r of
                  TC_PASS \<Rightarrow> summary\<lparr>passed := passed summary + 1\<rparr>
                | TC_FAIL \<Rightarrow> summary\<lparr>failed := failed summary + 1\<rparr>
                | TC_SKIP \<Rightarrow> summary\<lparr>skipped := skipped summary + 1\<rparr>)
         in tc__run_tests ff suite suite_idx env (i + 1) summary1 s2)
      else (summary, s))"
  by pat_completeness auto
termination
  by (relation "measure (\<lambda>(ff, suite, suite_idx, env, i, summary, s). nat (test_count suite - i))")
     auto

text \<open>
  What \<open>tc__run_suite_ex\<close> does once setup has succeeded or is absent (lines 532-555):
  the tests, teardown, the suite time.
\<close>

definition tc__run_suite_body ::
  "(nat \<Rightarrow> real \<Rightarrow> string) \<Rightarrow> ('w, 'e) Suite \<Rightarrow> int \<Rightarrow> 'e option \<Rightarrow> real \<Rightarrow> 'w sys \<Rightarrow>
   RunSummary \<times> 'w sys" where
  "tc__run_suite_body ff suite suite_idx env start s =
     (let (summary, s1) = tc__run_tests ff suite suite_idx env 0 zero_summary s;
          s2 = (case teardown_fn suite of
                  Some td \<Rightarrow>
                    s1\<lparr>world := td env (world s1),
                       calls := calls s1 @ [Call_teardown (suite_name suite)]\<rparr>
                | None \<Rightarrow> s1);
          (stop, s3) = tc__get_time_ms s2;
          summary1 = summary\<lparr>total_ms := stop - start\<rparr>
      in (summary1, printf (''  ('' @ ff 2 (total_ms summary1) @ ''ms)'' @ nl) s3))"

definition tc__run_suite_ex ::
  "(nat \<Rightarrow> real \<Rightarrow> string) \<Rightarrow> ('w, 'e) Suite \<Rightarrow> int \<Rightarrow> 'w sys \<Rightarrow> RunSummary \<times> 'w sys" where
  "tc__run_suite_ex ff suite suite_idx s =
     (let (start, s1) = tc__get_time_ms s;
          s2 = printf (nl @ ''=== '' @ suite_name suite @ '' ==='' @ nl) s1
      in case setup_fn suite of
           Some su \<Rightarrow>
             (let ((ret, env), w) = su (world s2);
                  s3 = s2\<lparr>world := w, calls := calls s2 @ [Call_setup (suite_name suite)]\<rparr>
              in if ret \<noteq> 0 then
                   (zero_summary\<lparr>failed := test_count suite\<rparr>,
                    printf (''  '' @ TC__RED @ [CHR 0xE2, CHR 0x9C, CHR 0x97] @
                            '' Setup failed (returned '' @ show_int ret @ '')'' @ TC__RESET @ nl) s3)
                 else tc__run_suite_body ff suite suite_idx env start s3)
         | None \<Rightarrow> tc__run_suite_body ff suite suite_idx None start s2)"

definition tc_run_suite ::
  "(nat \<Rightarrow> real \<Rightarrow> string) \<Rightarrow> ('w, 'e) Suite \<Rightarrow> 'w sys \<Rightarrow> RunSummary \<times> 'w sys" where
  "tc_run_suite ff suite s = tc__run_suite_ex ff suite (- 1) s"

text \<open>The loop of \<open>tc__run_all_ex\<close> (lines 572-577) over the suites from position \<open>i\<close>.\<close>

fun tc__run_all_loop ::
  "(nat \<Rightarrow> real \<Rightarrow> string) \<Rightarrow> ('w, 'e) Suite list \<Rightarrow> bool \<Rightarrow> int \<Rightarrow> RunSummary \<Rightarrow> 'w sys \<Rightarrow>
   RunSummary \<times> 'w sys" where
  "tc__run_all_loop ff [] store_results i tot s = (tot, s)"
| "tc__run_all_loop ff (suite # rest) store_results i tot s =
     (let (sm, s1) = tc__run_suite_ex ff suite (if store_results then i else - 1) s
      in tc__run_all_loop ff rest store_results (i + 1)
           (tot\<lparr>passed := c_int_add (passed tot) (passed sm),
                  failed := c_int_add (failed tot) (failed sm),
                  skipped := c_int_add (skipped tot) (skipped sm)\<rparr>) s1)"

definition tc__run_all_ex ::
  "(nat \<Rightarrow> real \<Rightarrow> string) \<Rightarrow> ('w, 'e) Suite list \<Rightarrow> bool \<Rightarrow> 'w sys \<Rightarrow> RunSummary \<times> 'w sys" where
  "tc__run_all_ex ff suites store_results s =
     (let s0 = s\<lparr>tc__result_counts := (\<lambda>_. 0)\<rparr>;
          (start, s1) = tc__get_time_ms s0;
          (tot, s2) = tc__run_all_loop ff suites store_results 0 zero_summary s1;
          (stop, s3) = tc__get_time_ms s2
      in (tot\<lparr>total_ms := stop - start\<rparr>, s3))"

definition tc_run_all ::
  "(nat \<Rightarrow> real \<Rightarrow> string) \<Rightarrow> ('w, 'e) Suite list \<Rightarrow> 'w sys \<Rightarrow> RunSummary \<times> 'w sys" where
  "tc_run_all ff suites s = tc__run_all_ex ff suites True s"

definition tc_print_summary ::
  "(nat \<Rightarrow> real \<Rightarrow> string) \<Rightarrow> RunSummary \<Rightarrow> 'w sys \<Rightarrow> int \<times> 'w sys" where
  "tc_print_summary ff summary s =
     (let tot = c_int_add (c_int_add (passed summary) (failed summary)) (skipped summary);
          s1 = printf nl s;
          s2 = (if failed summary = 0 then printf TC__GREEN s1 else printf TC__RED s1);
          s3 = printf (show_int (passed summary) @ ''/'' @ show_int tot @ '' passed'') s2;
          s4 = (if failed summary > 0 then printf ('', '' @ show_int (failed summary) @ '' failed'') s3
                else s3);
          s5 = (if skipped summary > 0 then printf ('', '' @ show_int (skipped summary) @ '' skipped'') s4
                else s4);
          s6 = printf ('' ('' @ ff 2 (total_ms summary) @ ''ms)'' @ TC__RESET @ nl) s5
      in (if failed summary > 0 then 1 else 0, s6))"

section \<open>JUnit XML output (src/testcracks.c, lines 609-726)\<close>

text \<open>
  \<open>max - 6\<close> in \<open>size_t\<close> arithmetic (taken as 64 bits wide): below 6 the subtraction
  wraps around.
\<close>

definition size_t_sub6 :: "nat \<Rightarrow> nat" where
  "size_t_sub6 mx = (if 6 \<le> mx then mx - 6 else mx + 2 ^ 64 - 6)"

text \<open>The \<open>switch\<close> of \<open>tc__xml_escape\<close>: the text appended for one source character.\<close>

definition tc__xml_entity :: "char \<Rightarrow> string" where
  \<open>tc__xml_entity c =
     (if c = CHR ''&'' then ''&amp;''
      else if c = CHR ''<'' then ''&lt;''
      else if c = CHR ''>'' then ''&gt;''
      else if c = CHR 0x22 then ''&quot;''
      else if c = CHR 0x27 then ''&apos;''
      else [c])\<close>

text \<open>
  The loop of \<open>tc__xml_escape\<close>: \<open>dst\<close> is the text written so far, its length is the
  index \<open>di\<close> of the source.
\<close>

fun tc__xml_escape_loop :: "string \<Rightarrow> nat \<Rightarrow> string \<Rightarrow> string" where
  "tc__xml_escape_loop [] mx dst = dst"
| "tc__xml_escape_loop (c # cs) mx dst =
     (if length dst < size_t_sub6 mx then tc__xml_escape_loop cs mx (dst @ tc__xml_entity c)
      else dst)"

definition tc__xml_escape :: "string option \<Rightarrow> nat \<Rightarrow> string" where
  "tc__xml_escape src mx =
     (case src of None \<Rightarrow> [] | Some str \<Rightarrow> tc__xml_escape_loop str mx [])"

text \<open>
  \<open>pos += snprintf(detail + pos, sizeof(detail) - pos, ...)\<close> for a buffer of \<open>cap\<close>
  bytes. While \<open>pos\<close> does not exceed \<open>cap\<close>, at most \<open>cap - pos - 1\<close> characters are
  stored after the first \<open>pos\<close>, and \<open>pos\<close> grows by the length of the whole text. Once
  \<open>pos\<close> has passed \<open>cap\<close>, the size \<open>sizeof(detail) - pos\<close> wraps around in \<open>size_t\<close>
  and the call writes outside the buffer: the result is \<open>None\<close>.
\<close>

definition tc__detail_put :: "nat \<Rightarrow> string \<times> int \<Rightarrow> string \<Rightarrow> (string \<times> int) option" where
  "tc__detail_put cap dp txt =
     (if int cap < snd dp then None
      else Some (take (nat (snd dp)) (fst dp) @ take (cap - nat (snd dp) - 1) txt,
                 snd dp + int (length txt)))"

text \<open>
  The loop that builds the body of a \<open>failure\<close> element (lines 689-698); \<open>None\<close> when one
  of its \<open>snprintf\<close> calls writes outside \<open>detail\<close>.
\<close>

function tc__xml_detail :: "TestResult \<Rightarrow> int \<Rightarrow> string \<times> int \<Rightarrow> string option" where
  \<open>tc__xml_detail r k dp =
     (if k < error_count r \<and> snd dp < int (TC_MAX_MSG_LEN * 4) - 100 then
        (let e = errors r ! nat k;
             cap = TC_MAX_MSG_LEN * 4;
             dp1 = tc__detail_put cap dp
                     (tc__xml_escape (Some (message e)) (TC_MAX_MSG_LEN * 2) @ nl);
             dp2 = (if expected e \<noteq> [] then
                      Option.bind
                        (Option.bind dp1
                           (\<lambda>d. tc__detail_put cap d
                                  (''  Expected: '' @
                                   tc__xml_escape (Some (expected e)) (TC_MAX_MSG_LEN * 2) @ nl)))
                        (\<lambda>d. tc__detail_put cap d
                               (''  Actual:   '' @
                                tc__xml_escape (Some (actual e)) (TC_MAX_MSG_LEN * 2) @ nl))
                    else dp1)
         in case dp2 of None \<Rightarrow> None | Some d \<Rightarrow> tc__xml_detail r (k + 1) d)
      else Some (fst dp))\<close>
  by pat_completeness auto
termination
  by (relation "measure (\<lambda>(r, k, dp). nat (error_count r - k))") auto

text \<open>
  The \<open>switch (r->tag)\<close> of lines 671-716: what is written to the file for one stored
  result, one entry per \<open>fprintf\<close>; \<open>None\<close> when building the failure text writes outside
  its buffer.
\<close>

definition tc__xml_testcase ::
  "(nat \<Rightarrow> real \<Rightarrow> string) \<Rightarrow> ('w, 'e) Test \<Rightarrow> TestResult \<Rightarrow> string list option" where
  \<open>tc__xml_testcase ff t r =
     (let escaped = tc__xml_escape (Some (name t)) (TC_MAX_MSG_LEN * 2) in
      case tag r of
        TC_PASS \<Rightarrow>
          Some [''        <testcase name="'' @ escaped @ ''" time="'' @
                ff 3 (elapsed_ms r / 1000) @ ''"/>'' @ nl]
      | TC_FAIL \<Rightarrow>
          (if error_count r > 0 then
             (case tc__xml_detail r 0 ([], 0) of
                None \<Rightarrow> None
              | Some detail \<Rightarrow>
                  Some [''        <testcase name="'' @ escaped @ ''" time="'' @
                        ff 3 (elapsed_ms r / 1000) @ ''">'' @ nl,
                        ''            <failure message="'' @
                        tc__xml_escape (Some (message (errors r ! 0))) (TC_MAX_MSG_LEN * 2) @
                        ''" type="AssertionError">'' @ detail @ ''</failure>'' @ nl,
                        ''        </testcase>'' @ nl])
           else
             Some [''        <testcase name="'' @ escaped @ ''" time="'' @
                   ff 3 (elapsed_ms r / 1000) @ ''">'' @ nl,
                   ''        </testcase>'' @ nl])
      | TC_SKIP \<Rightarrow>
          Some ([''        <testcase name="'' @ escaped @ ''" time="0">'' @ nl] @
                (if error_count r > 0 then
                   [''            <skipped message="'' @
                    tc__xml_escape (Some (message (errors r ! 0))) (TC_MAX_MSG_LEN * 2) @
                    ''"/>'' @ nl]
                 else [''            <skipped/>'' @ nl]) @
                [''        </testcase>'' @ nl]))\<close>

text \<open>
  The body of the suite loop (lines 650-719) for a suite, its row \<open>res\<close> of
  \<open>tc__results\<close> and its entry \<open>cnt\<close> of \<open>tc__result_counts\<close>. The three counters count
  stored results, at most \<open>cnt\<close> together, so their sum does not overflow.
\<close>

definition tc__xml_suite ::
  "(nat \<Rightarrow> real \<Rightarrow> string) \<Rightarrow> ('w, 'e) Suite \<Rightarrow> (nat \<Rightarrow> TestResult) \<Rightarrow> int \<Rightarrow>
   string list option" where
  \<open>tc__xml_suite ff suite res cnt =
     (let stored = map res [0 ..< nat cnt];
          suite_passed = int (length (filter (\<lambda>r. tag r = TC_PASS) stored));
          suite_failed = int (length (filter (\<lambda>r. tag r = TC_FAIL) stored));
          suite_skipped = int (length (filter (\<lambda>r. tag r = TC_SKIP) stored));
          suite_time = foldl (\<lambda>acc r. acc + elapsed_ms r) 0 stored
      in case those (map (\<lambda>j. tc__xml_testcase ff (tests suite ! j) (res j))
                       [0 ..< nat (min cnt (test_count suite))]) of
           None \<Rightarrow> None
         | Some cases \<Rightarrow>
             Some ([''    <testsuite name="'' @
                    tc__xml_escape (Some (suite_name suite)) (TC_MAX_MSG_LEN * 2) @
                    ''" tests="'' @ show_int (suite_passed + suite_failed + suite_skipped) @
                    ''" failures="'' @ show_int suite_failed @
                    ''" errors="0" skipped="'' @ show_int suite_skipped @
                    ''" time="'' @ ff 3 (suite_time / 1000) @ ''">'' @ nl] @
                   concat cases @
                   [''    </testsuite>'' @ nl]))\<close>

text \<open>The first two lines of the report (lines 639-647).\<close>

definition tc__xml_head :: "(nat \<Rightarrow> real \<Rightarrow> string) \<Rightarrow> RunSummary \<Rightarrow> string list" where
  \<open>tc__xml_head ff summary =
     [''<?xml version="1.0" encoding="UTF-8"?>'' @ nl,
      ''<testsuites tests="'' @
      show_int (c_int_add (c_int_add (passed summary) (failed summary)) (skipped summary)) @
      ''" failures="'' @ show_int (failed summary) @
      ''" errors="0" skipped="'' @ show_int (skipped summary) @
      ''" time="'' @ ff 3 (total_ms summary / 1000) @ ''">'' @ nl]\<close>

text \<open>
  Everything \<open>tc_write_junit_xml\<close> writes to the file (lines 645-722). The suite loop reads
  \<open>tc__result_counts[i]\<close> and \<open>tc__results[i]\<close> for every position of the collection:
  with more than \<open>TC_MAX_SUITES\<close> suites it reads outside the static arrays, and the result
  is \<open>None\<close>, as it is when a failure text overruns its buffer.
\<close>

definition tc__xml_document ::
  "(nat \<Rightarrow> real \<Rightarrow> string) \<Rightarrow> ('w, 'e) Suite list \<Rightarrow> RunSummary \<Rightarrow> 'w sys \<Rightarrow>
   string list option" where
  \<open>tc__xml_document ff suites summary s =
     (if TC_MAX_SUITES < length suites then None
      else
        case those (map (\<lambda>i. tc__xml_suite ff (suites ! i) (tc__results s i)
                               (tc__result_counts s i)) [0 ..< length suites]) of
          None \<Rightarrow> None
        | Some elements \<Rightarrow>
            Some (tc__xml_head ff summary @ concat elements @ [''</testsuites>'' @ nl]))\<close>

text \<open>
  When the document is \<open>None\<close> the program has left defined behaviour while writing: the
  state is marked with \<open>fault\<close> and nothing is said about the file or the return value.
\<close>

definition tc_write_junit_xml ::
  "(nat \<Rightarrow> real \<Rightarrow> string) \<Rightarrow> string \<Rightarrow> ('w, 'e) Suite list \<Rightarrow> RunSummary \<Rightarrow> 'w sys \<Rightarrow>
   int \<times> 'w sys" where
  \<open>tc_write_junit_xml ff filename suites summary s =
     (if \<not> creatable s filename then
        (- 1, eprintf (''Error: Cannot open file '' @ [CHR 0x27] @ filename @ [CHR 0x27] @
                       '' for writing'' @ nl) s)
      else
        case tc__xml_document ff suites summary s of
          Some document \<Rightarrow> (0, s\<lparr>files := (files s)(filename \<mapsto> concat document)\<rparr>)
        | None \<Rightarrow> (0, s\<lparr>fault := True\<rparr>))\<close>

text \<open>
  The entity decoding of an XML parser, for the five named entities: it is not part of the
  program, it is what reads the report back.
\<close>

fun xml_unescape :: "string \<Rightarrow> string" where
  \<open>xml_unescape [] = []\<close>
| \<open>xml_unescape (c # cs) =
     (if c = CHR ''&'' \<and> take 4 cs = ''amp;'' then CHR ''&'' # xml_unescape (drop 4 cs)
      else if c = CHR ''&'' \<and> take 3 cs = ''lt;'' then CHR ''<'' # xml_unescape (drop 3 cs)
      else if c = CHR ''&'' \<and> take 3 cs = ''gt;'' then CHR ''>'' # xml_unescape (drop 3 cs)
      else if c = CHR ''&'' \<and> take 5 cs = ''quot;'' then CHR 0x22 # xml_unescape (drop 5 cs)
      else if c = CHR ''&'' \<and> take 5 cs = ''apos;'' then CHR 0x27 # xml_unescape (drop 5 cs)
      else c # xml_unescape cs)\<close>

section \<open>Command line (src/testcracks.c, lines 732-853)\<close>

text \<open>The local variables of \<open>tc_main\<close> that the argument loop sets.\<close>

record tc__options =
  suite_filter :: "string option"
  test_filter :: "string option"
  match_filter :: "string option"
  xml_file :: "string option"
  list_only :: bool

definition tc__no_options :: tc__options where
  "tc__no_options =
     \<lparr>suite_filter = None, test_filter = None, match_filter = None, xml_file = None,
      list_only = False\<rparr>"

text \<open>
  The argument loop (lines 770-786) over \<open>argv[i], argv[i+1], ...\<close>; \<open>None\<close> when it
  meets \<open>--help\<close> or \<open>-h\<close>, where \<open>tc_main\<close> prints the usage and returns 0.
\<close>

fun tc__parse_args :: "string list \<Rightarrow> tc__options \<Rightarrow> tc__options option" where
  "tc__parse_args [] opts = Some opts"
| "tc__parse_args (a # rest) opts =
     (if a = ''--help'' \<or> a = ''-h'' then None
      else if a = ''--list'' then tc__parse_args rest (opts\<lparr>list_only := True\<rparr>)
      else if a = ''--suite'' \<and> 1 \<le> length rest then
        tc__parse_args (drop 1 rest) (opts\<lparr>suite_filter := Some (rest ! 0)\<rparr>)
      else if a = ''--test'' \<and> 2 \<le> length rest then
        tc__parse_args (drop 2 rest)
          (opts\<lparr>suite_filter := Some (rest ! 0), test_filter := Some (rest ! 1)\<rparr>)
      else if a = ''--match'' \<and> 1 \<le> length rest then
        tc__parse_args (drop 1 rest) (opts\<lparr>match_filter := Some (rest ! 0)\<rparr>)
      else if a = ''--xml'' \<and> 1 \<le> length rest then
        tc__parse_args (drop 1 rest) (opts\<lparr>xml_file := Some (rest ! 0)\<rparr>)
      else tc__parse_args rest opts)"

definition tc__print_help :: "string \<Rightarrow> 'w sys \<Rightarrow> 'w sys" where
  \<open>tc__print_help prog s =
     s\<lparr>stdout := stdout s @
        [''Usage: '' @ prog @ '' [options]'' @ nl,
         nl @ ''Options:'' @ nl,
         ''  --help                  Show this help'' @ nl,
         ''  --list                  List all tests'' @ nl,
         ''  --suite "name"          Run specific suite'' @ nl,
         ''  --test "suite" "test"   Run specific test'' @ nl,
         ''  --match "pattern"       Run tests matching pattern'' @ nl,
         ''  --xml "file"            Output results as JUnit XML'' @ nl]\<rparr>\<close>

definition tc__list_tests :: "('w, 'e) Suite list \<Rightarrow> 'w sys \<Rightarrow> 'w sys" where
  \<open>tc__list_tests suites s =
     s\<lparr>stdout := stdout s @
        concat (map (\<lambda>suite.
                  (suite_name suite @ '':'' @ nl) #
                  map (\<lambda>j. ''  - '' @ name (tests suite ! j) @
                            (if fn (tests suite ! j) \<noteq> None then [] else '' [skip]'') @ nl)
                    [0 ..< nat (test_count suite)])
                suites)\<rparr>\<close>

text \<open>\<open>strstr(str, pattern) != NULL\<close>: the pattern occurs in the string.\<close>

fun tc__matches :: "string \<Rightarrow> string \<Rightarrow> bool" where
  "tc__matches [] pattern = (pattern = [])"
| "tc__matches (c # cs) pattern =
     (take (length pattern) (c # cs) = pattern \<or> tc__matches cs pattern)"

text \<open>The inner loop of the filter (lines 815-826), from test index \<open>j\<close>.\<close>

function tc__filter_tests ::
  "('w, 'e) Suite \<Rightarrow> string option \<Rightarrow> string option \<Rightarrow> int \<Rightarrow> ('w, 'e) Suite \<Rightarrow> ('w, 'e) Suite" where
  "tc__filter_tests suite tf mf j temp =
     (if j < test_count suite then
        (let t = tests suite ! nat j;
             incl = ((case tf of Some p \<Rightarrow> tc__matches (name t) p | None \<Rightarrow> False) \<or>
                     (case mf of Some p \<Rightarrow> tc__matches (name t) p | None \<Rightarrow> False))
         in tc__filter_tests suite tf mf (j + 1)
              (if incl then
                 temp\<lparr>tests := (tests temp)[nat (test_count temp) := t],
                      test_count := test_count temp + 1\<rparr>
               else temp))
      else temp)"
  by pat_completeness auto
termination
  by (relation "measure (\<lambda>(suite, tf, mf, j, temp). nat (test_count suite - j))") auto

text \<open>
  The outer loop of the filter (lines 803-836); \<open>filtered\<close> holds the suites selected so
  far, \<open>count\<close> is its length.
\<close>

fun tc__filter_suites ::
  "('w, 'e) Suite list \<Rightarrow> tc__options \<Rightarrow> ('w, 'e) Suite list \<Rightarrow> ('w, 'e) Suite list" where
  "tc__filter_suites [] opts filtered = filtered"
| "tc__filter_suites (suite # rest) opts filtered =
     (if \<not> length filtered < TC_MAX_SUITES then filtered
      else if (case suite_filter opts of
                 Some p \<Rightarrow> \<not> tc__matches (suite_name suite) p | None \<Rightarrow> False)
      then tc__filter_suites rest opts filtered
      else if test_filter opts \<noteq> None \<or> match_filter opts \<noteq> None then
        (let temp = tc__filter_tests suite (test_filter opts) (match_filter opts) 0
                      (zero_suite\<lparr>suite_name := suite_name suite, setup_fn := setup_fn suite,
                                  teardown_fn := teardown_fn suite\<rparr>)
         in if test_count temp > 0 then tc__filter_suites rest opts (filtered @ [temp])
            else tc__filter_suites rest opts filtered)
      else tc__filter_suites rest opts (filtered @ [suite]))"

text \<open>\<open>tc_main\<close> from line 797 on: listing, filtering, the run and the reports.\<close>

definition tc__main_run ::
  "(nat \<Rightarrow> real \<Rightarrow> string) \<Rightarrow> tc__options \<Rightarrow> ('w, 'e) Suite list \<Rightarrow> 'w sys \<Rightarrow> int \<times> 'w sys" where
  \<open>tc__main_run ff opts suites s =
     (if list_only opts then (0, tc__list_tests suites s)
      else
        (let filtered = tc__filter_suites suites opts [] in
         if length filtered = 0 then (1, printf (''No tests matched filters.'' @ nl) s)
         else
           (let (summary, s1) = tc__run_all_ex ff filtered True s;
                s2 = (case xml_file opts of
                        Some path \<Rightarrow>
                          (let (rc, s') = tc_write_junit_xml ff path filtered summary s1
                           in if rc = 0 then printf (nl @ ''Results written to '' @ path @ nl) s'
                              else s')
                      | None \<Rightarrow> s1)
            in tc_print_summary ff summary s2)))\<close>

definition tc_main ::
  "(nat \<Rightarrow> real \<Rightarrow> string) \<Rightarrow> string list \<Rightarrow> ('w, 'e) Suite list \<Rightarrow> 'w sys \<Rightarrow> int \<times> 'w sys" where
  \<open>tc_main ff argv suites s =
     (case tc__parse_args (drop 1 argv) tc__no_options of
        None \<Rightarrow> (0, tc__print_help (argv ! 0) s)
      | Some opts \<Rightarrow>
          (case xml_file opts of
             Some path \<Rightarrow>
               (if \<not> creatable s path then
                  (1, eprintf (''Error: Cannot create XML file '' @ [CHR 0x27] @ path @
                               [CHR 0x27] @ nl) s)
                else tc__main_run ff opts suites (s\<lparr>files := (files s)(path \<mapsto> [])\<rparr>))
           | None \<Rightarrow> tc__main_run ff opts suites s))\<close>

text \<open>
  The state of a process that has not run anything yet, with a clock that advances by one
  millisecond per reading and one path that cannot be created. It is used for the concrete
  instances of the theorems.
\<close>

definition sys0 :: "unit sys" where
  "sys0 =
     \<lparr>world = (), calls = [], stdout = [], stderr = [], clock = (\<lambda>n. real n), ticks = 0,
      files = (\<lambda>_. None), creatable = (\<lambda>p. p \<noteq> ''/nonexistent/out.xml''),
      tc__results = (\<lambda>_ _. zero_result), tc__result_counts = (\<lambda>_. 0), fault = False\<rparr>"

section \<open>Properties of the result model\<close>

declare tc__copy_errors.simps [simp del]

lemma TC_MAX_ERRORS_pos: "0 < TC_MAX_ERRORS"
  by (simp add: TC_MAX_ERRORS_def)

lemma TC_MAX_MSG_LEN_pos: "0 < TC_MAX_MSG_LEN"
  by (simp add: TC_MAX_MSG_LEN_def)

lemma safe_copy_take: "0 < mx \<Longrightarrow> tc__safe_copy (Some m) mx = take (mx - 1) m"
  by (simp add: tc__safe_copy_def)

lemma append_error_zero:
  "tc__append_error (zero_result\<lparr>tag := t\<rparr>) msg expd act =
     \<lparr>tag = t,
      errors = \<lparr>message = tc__safe_copy msg TC_MAX_MSG_LEN,
                 expected = tc__safe_copy expd TC_MAX_MSG_LEN,
                 actual = tc__safe_copy act TC_MAX_MSG_LEN\<rparr> #
               replicate (TC_MAX_ERRORS - 1) zero_error,
      error_count = 1, elapsed_ms = 0\<rparr>"
proof -
  obtain n where n: "TC_MAX_ERRORS = Suc n"
    using TC_MAX_ERRORS_pos by (cases TC_MAX_ERRORS) auto
  show ?thesis
    by (simp add: tc__append_error_def zero_result_def n)
qed

lemma result_wf_zero: "result_wf (zero_result\<lparr>tag := t\<rparr>)"
  by (simp add: result_wf_def zero_result_def)

lemma result_wf_append_zero: "result_wf (tc__append_error (zero_result\<lparr>tag := t\<rparr>) msg expd act)"
  using TC_MAX_ERRORS_pos by (simp add: append_error_zero result_wf_def)

lemma copy_errors_step:
  "i < error_count src \<Longrightarrow> error_count r < int TC_MAX_ERRORS \<Longrightarrow>
   tc__copy_errors src i r =
     tc__copy_errors src (i + 1)
       (r\<lparr>errors := (errors r)[nat (error_count r) := errors src ! nat i],
          error_count := error_count r + 1\<rparr>)"
  by (subst tc__copy_errors.simps) simp

lemma copy_errors_stop:
  "\<not> (i < error_count src \<and> error_count r < int TC_MAX_ERRORS) \<Longrightarrow>
   tc__copy_errors src i r = r"
  by (subst tc__copy_errors.simps) auto

lemma copy_errors_frame:
  "tag (tc__copy_errors src i r) = tag r \<and>
   elapsed_ms (tc__copy_errors src i r) = elapsed_ms r \<and>
   length (errors (tc__copy_errors src i r)) = length (errors r)"
proof (induction src i r rule: tc__copy_errors.induct)
  case (1 src i r)
  show ?case
  proof (cases "i < error_count src \<and> error_count r < int TC_MAX_ERRORS")
    case True
    then show ?thesis using "1.IH"[OF True] by (simp add: copy_errors_step)
  next
    case False
    then show ?thesis by (simp add: copy_errors_stop)
  qed
qed

lemma copy_errors_count:
  "0 \<le> error_count r \<Longrightarrow> error_count r \<le> int TC_MAX_ERRORS \<Longrightarrow>
   error_count (tc__copy_errors src i r) =
     min (int TC_MAX_ERRORS) (error_count r + max 0 (error_count src - i))"
proof (induction src i r rule: tc__copy_errors.induct)
  case (1 src i r)
  show ?case
  proof (cases "i < error_count src \<and> error_count r < int TC_MAX_ERRORS")
    case True
    then show ?thesis using "1.IH"[OF True] "1.prems" by (simp add: copy_errors_step)
  next
    case False
    then show ?thesis using "1.prems" by (auto simp add: copy_errors_stop)
  qed
qed

lemma copy_errors_list:
  "0 \<le> i \<Longrightarrow> i \<le> error_count r \<Longrightarrow> error_count r \<le> int TC_MAX_ERRORS \<Longrightarrow>
   length (errors r) = TC_MAX_ERRORS \<Longrightarrow> length (errors src) = TC_MAX_ERRORS \<Longrightarrow>
   errors (tc__copy_errors src i r) =
     take (nat (error_count r)) (errors r) @
     take (nat (error_count (tc__copy_errors src i r) - error_count r)) (drop (nat i) (errors src)) @
     drop (nat (error_count (tc__copy_errors src i r))) (errors r)"
proof (induction src i r rule: tc__copy_errors.induct)
  case (1 src i r)
  show ?case
  proof (cases "i < error_count src \<and> error_count r < int TC_MAX_ERRORS")
    case True
    define x where "x = errors src ! nat i"
    define n where "n = nat (error_count r)"
    define r1 where "r1 = r\<lparr>errors := (errors r)[n := x], error_count := error_count r + 1\<rparr>"
    define e where "e = error_count (tc__copy_errors src (i + 1) r1)"
    have step: "tc__copy_errors src i r = tc__copy_errors src (i + 1) r1"
      using True by (simp add: copy_errors_step r1_def n_def x_def)
    have nlt: "n < length (errors r)" and ilt: "nat i < length (errors src)"
      using True "1.prems" by (auto simp add: n_def)
    have en: "int n = error_count r" using "1.prems" by (simp add: n_def)
    have ege: "error_count r + 1 \<le> e"
      using copy_errors_count[of r1 src "i + 1"] True "1.prems"
      by (simp add: e_def r1_def)
    define m where "m = nat (e - (error_count r + 1))"
    have m: "nat (e - error_count r) = Suc m" "nat e = Suc (n + m)"
      using ege en by (simp_all add: m_def)
    have ih: "errors (tc__copy_errors src (i + 1) r1) =
       take (nat (error_count r1)) (errors r1) @
       take (nat (e - error_count r1)) (drop (nat (i + 1)) (errors src)) @
       drop (nat e) (errors r1)"
      unfolding e_def
      using "1.IH"[OF True] "1.prems" True by (simp add: r1_def n_def x_def)
    have a: "take (nat (error_count r1)) (errors r1) = take n (errors r) @ [x]"
      using nlt "1.prems" by (simp add: r1_def n_def nat_add_distrib take_Suc_conv_app_nth)
    have b: "drop (nat i) (errors src) = x # drop (nat (i + 1)) (errors src)"
      using ilt "1.prems" by (simp add: x_def nat_add_distrib Cons_nth_drop_Suc)
    have c: "drop (nat e) (errors r1) = drop (nat e) (errors r)"
      using m by (simp add: r1_def)
    show ?thesis
      unfolding step ih a b c e_def[symmetric] using m by (simp add: r1_def n_def m_def)
  next
    case False
    then show ?thesis using "1.prems" by (simp add: copy_errors_stop)
  qed
qed

text \<open>The two loops of \<open>tc_combine\<close>, one after the other, on a zeroed result.\<close>

lemma combine_loops:
  fixes a b :: TestResult and t :: ResultTag
  assumes a: "result_wf a" and b: "result_wf b"
  defines "r \<equiv> tc__copy_errors b 0 (tc__copy_errors a 0 (zero_result\<lparr>tag := t\<rparr>))"
  shows "tag r = t" and "elapsed_ms r = 0" and "length (errors r) = TC_MAX_ERRORS"
    and "error_count r = min (int TC_MAX_ERRORS) (error_count a + error_count b)"
    and "used_errors r = take TC_MAX_ERRORS (used_errors a @ used_errors b)"
    and "drop (nat (error_count r)) (errors r) =
           replicate (TC_MAX_ERRORS - nat (error_count r)) zero_error"
proof -
  define z where "z = zero_result\<lparr>tag := t\<rparr>"
  define r1 where "r1 = tc__copy_errors a 0 z"
  have r: "r = tc__copy_errors b 0 r1" by (simp add: r_def r1_def z_def)
  have z: "error_count z = 0" "length (errors z) = TC_MAX_ERRORS" "tag z = t" "elapsed_ms z = 0"
    "errors z = replicate TC_MAX_ERRORS zero_error"
    by (simp_all add: z_def zero_result_def)
  have la: "length (errors a) = TC_MAX_ERRORS" and lb: "length (errors b) = TC_MAX_ERRORS"
    and ea: "0 \<le> error_count a" "error_count a \<le> int TC_MAX_ERRORS"
    and eb: "0 \<le> error_count b" "error_count b \<le> int TC_MAX_ERRORS"
    using a b by (simp_all add: result_wf_def)
  have c1: "error_count r1 = error_count a"
    using copy_errors_count[of z a 0] z ea by (simp add: r1_def)
  have l1: "length (errors r1) = TC_MAX_ERRORS"
    using copy_errors_frame[of a 0 z] z by (simp add: r1_def)
  have e1: "errors r1 = take (nat (error_count a)) (errors a) @
              replicate (TC_MAX_ERRORS - nat (error_count a)) zero_error"
    using copy_errors_list[of 0 z a] z la c1 by (simp add: r1_def)
  show "tag r = t" "elapsed_ms r = 0" "length (errors r) = TC_MAX_ERRORS"
    using copy_errors_frame[of b 0 r1] copy_errors_frame[of a 0 z] z l1
    by (simp_all add: r r1_def)
  show c2: "error_count r = min (int TC_MAX_ERRORS) (error_count a + error_count b)"
    using copy_errors_count[of r1 b 0] c1 ea eb by (simp add: r)
  have e2: "errors r = take (nat (error_count a)) (errors r1) @
              take (nat (error_count r - error_count a)) (errors b) @
              drop (nat (error_count r)) (errors r1)"
    using copy_errors_list[of 0 r1 b] c1 ea l1 lb by (simp add: r)
  have ge: "error_count a \<le> error_count r" "0 \<le> error_count r" "error_count r \<le> int TC_MAX_ERRORS"
    using c2 ea eb by auto
  have na: "nat (error_count a) \<le> TC_MAX_ERRORS" "nat (error_count b) \<le> TC_MAX_ERRORS"
     "nat (error_count r) \<le> TC_MAX_ERRORS"
    using ea eb ge by auto
  have t1: "take (nat (error_count a)) (errors r1) = take (nat (error_count a)) (errors a)"
    using la na by (simp add: e1)
  have d1: "drop (nat (error_count r)) (errors r1) =
              replicate (TC_MAX_ERRORS - nat (error_count r)) zero_error"
    using la na ge by (simp add: e1 min_def) 
  define xs where "xs = take (nat (error_count a)) (errors a) @
              take (nat (error_count r - error_count a)) (errors b)"
  have e3: "errors r = xs @ replicate (TC_MAX_ERRORS - nat (error_count r)) zero_error"
    unfolding e2 t1 d1 xs_def by simp
  have len: "length xs = nat (error_count r)"
    using la lb na ge ea eb c2 unfolding xs_def by (simp add: min_def) linarith
  show "drop (nat (error_count r)) (errors r) =
           replicate (TC_MAX_ERRORS - nat (error_count r)) zero_error"
    by (simp add: e3 len)
  have "used_errors r = take (nat (error_count a)) (errors a) @
              take (nat (error_count r - error_count a)) (errors b)"
    unfolding used_errors_def e3 using len by (simp add: xs_def[symmetric])
  also have "\<dots> = take TC_MAX_ERRORS (used_errors a @ used_errors b)"
    using la lb na ge ea eb c2 unfolding used_errors_def
    by (auto simp add: min_def nat_diff_distrib nat_add_distrib nat_le_iff)
  finally show "used_errors r = take TC_MAX_ERRORS (used_errors a @ used_errors b)" .
qed

lemma used_errors_append_zero:
  "used_errors (tc__append_error (zero_result\<lparr>tag := t\<rparr>) msg expd act) =
     [\<lparr>message = tc__safe_copy msg TC_MAX_MSG_LEN,
       expected = tc__safe_copy expd TC_MAX_MSG_LEN,
       actual = tc__safe_copy act TC_MAX_MSG_LEN\<rparr>]"
  by (simp add: used_errors_def append_error_zero)

lemma tc_pass_fields:
  "tag tc_pass = TC_PASS" "error_count tc_pass = 0" "elapsed_ms tc_pass = 0"
  "errors tc_pass = replicate TC_MAX_ERRORS zero_error"
  by (simp_all add: tc_pass_def zero_result_def)

lemma tc_fail_with_fields:
  "tag (tc_fail_with msg expd act) = TC_FAIL" "error_count (tc_fail_with msg expd act) = 1"
  "elapsed_ms (tc_fail_with msg expd act) = 0"
  "errors (tc_fail_with msg expd act) =
     \<lparr>message = tc__safe_copy msg TC_MAX_MSG_LEN, expected = tc__safe_copy expd TC_MAX_MSG_LEN,
      actual = tc__safe_copy act TC_MAX_MSG_LEN\<rparr> # replicate (TC_MAX_ERRORS - 1) zero_error"
  by (simp_all add: tc_fail_with_def append_error_zero)

lemma tc_fail_fields:
  "tag (tc_fail msg) = TC_FAIL" "error_count (tc_fail msg) = 1" "elapsed_ms (tc_fail msg) = 0"
  "errors (tc_fail msg) =
     \<lparr>message = tc__safe_copy msg TC_MAX_MSG_LEN, expected = tc__safe_copy (Some []) TC_MAX_MSG_LEN,
      actual = tc__safe_copy (Some []) TC_MAX_MSG_LEN\<rparr> # replicate (TC_MAX_ERRORS - 1) zero_error"
  by (simp_all add: tc_fail_def append_error_zero)

lemma tc_skip_fields:
  "tag (tc_skip msg) = TC_SKIP" "error_count (tc_skip msg) = 1" "elapsed_ms (tc_skip msg) = 0"
  "errors (tc_skip msg) =
     \<lparr>message = tc__safe_copy msg TC_MAX_MSG_LEN, expected = tc__safe_copy (Some []) TC_MAX_MSG_LEN,
      actual = tc__safe_copy (Some []) TC_MAX_MSG_LEN\<rparr> # replicate (TC_MAX_ERRORS - 1) zero_error"
  by (simp_all add: tc_skip_def append_error_zero)

text \<open>
  Claim C1. \<open>tc_combine a b\<close> is \<open>a\<close> unchanged if \<open>a\<close> is tagged Skip; else \<open>b\<close>
  unchanged if \<open>b\<close> is tagged Skip; else \<open>a\<close> if both are tagged Pass; else a new result
  tagged Fail (zero elapsed time, unused entries zeroed) whose error list is the errors of
  \<open>a\<close> followed by the errors of \<open>b\<close>, cut at \<open>TC_MAX_ERRORS\<close>, so that its
  \<open>error_count\<close> is \<open>min TC_MAX_ERRORS (error_count a + error_count b)\<close>. The last
  case is stated for results that satisfy the representation invariant \<open>result_wf\<close>
  (the array has its declared size, \<open>error_count\<close> lies between 0 and
  \<open>TC_MAX_ERRORS\<close>), which every constructor and \<open>tc_combine\<close> itself establish.
\<close>

theorem tc_combine_spec:
  "(tag a = TC_SKIP \<longrightarrow> tc_combine a b = a) \<and>
   (tag a \<noteq> TC_SKIP \<and> tag b = TC_SKIP \<longrightarrow> tc_combine a b = b) \<and>
   (tag a = TC_PASS \<and> tag b = TC_PASS \<longrightarrow> tc_combine a b = a) \<and>
   (tag a \<noteq> TC_SKIP \<and> tag b \<noteq> TC_SKIP \<and> \<not> (tag a = TC_PASS \<and> tag b = TC_PASS) \<and>
    result_wf a \<and> result_wf b \<longrightarrow>
      tag (tc_combine a b) = TC_FAIL \<and>
      error_count (tc_combine a b) = min (int TC_MAX_ERRORS) (error_count a + error_count b) \<and>
      used_errors (tc_combine a b) = take TC_MAX_ERRORS (used_errors a @ used_errors b) \<and>
      elapsed_ms (tc_combine a b) = 0 \<and>
      length (errors (tc_combine a b)) = TC_MAX_ERRORS \<and>
      drop (nat (error_count (tc_combine a b))) (errors (tc_combine a b)) =
        replicate (TC_MAX_ERRORS - nat (error_count (tc_combine a b))) zero_error)"
proof (intro conjI impI)
  assume h: "tag a \<noteq> TC_SKIP \<and> tag b \<noteq> TC_SKIP \<and> \<not> (tag a = TC_PASS \<and> tag b = TC_PASS) \<and>
    result_wf a \<and> result_wf b"
  then have c: "tc_combine a b =
      tc__copy_errors b 0 (tc__copy_errors a 0 (zero_result\<lparr>tag := TC_FAIL\<rparr>))"
    by (auto simp add: tc_combine_def)
  from h have wa: "result_wf a" and wb: "result_wf b" by simp_all
  show "tag (tc_combine a b) = TC_FAIL"
    unfolding c by (rule combine_loops(1)[OF wa wb])
  show "error_count (tc_combine a b) = min (int TC_MAX_ERRORS) (error_count a + error_count b)"
    unfolding c by (rule combine_loops(4)[OF wa wb])
  show "used_errors (tc_combine a b) = take TC_MAX_ERRORS (used_errors a @ used_errors b)"
    unfolding c by (rule combine_loops(5)[OF wa wb])
  show "elapsed_ms (tc_combine a b) = 0"
    unfolding c by (rule combine_loops(2)[OF wa wb])
  show "length (errors (tc_combine a b)) = TC_MAX_ERRORS"
    unfolding c by (rule combine_loops(3)[OF wa wb])
  show "drop (nat (error_count (tc_combine a b))) (errors (tc_combine a b)) =
        replicate (TC_MAX_ERRORS - nat (error_count (tc_combine a b))) zero_error"
    unfolding c by (rule combine_loops(6)[OF wa wb])
qed (simp_all add: tc_combine_def)

text \<open>
  The theorem at concrete results: two failures are merged in order, a skip on either
  side wins, two passes give a pass.
\<close>

theorem tc_combine_spec_witness:
  "result_wf (tc_fail (Some ''first'')) \<and>
   result_wf (tc_fail_with (Some ''second'') (Some ''1'') (Some ''2'')) \<and>
   tag (tc_combine (tc_fail (Some ''first''))
          (tc_fail_with (Some ''second'') (Some ''1'') (Some ''2''))) = TC_FAIL \<and>
   error_count (tc_combine (tc_fail (Some ''first''))
          (tc_fail_with (Some ''second'') (Some ''1'') (Some ''2''))) = 2 \<and>
   used_errors (tc_combine (tc_fail (Some ''first''))
          (tc_fail_with (Some ''second'') (Some ''1'') (Some ''2''))) =
     [\<lparr>message = ''first'', expected = [], actual = []\<rparr>,
      \<lparr>message = ''second'', expected = ''1'', actual = ''2''\<rparr>] \<and>
   tc_combine (tc_skip (Some ''why'')) (tc_fail (Some ''first'')) = tc_skip (Some ''why'') \<and>
   tc_combine (tc_fail (Some ''first'')) (tc_skip (Some ''why'')) = tc_skip (Some ''why'') \<and>
   tc_combine tc_pass tc_pass = tc_pass"
proof -
  have wa: "result_wf (tc_fail (Some ''first''))"
    and wb: "result_wf (tc_fail_with (Some ''second'') (Some ''1'') (Some ''2''))"
    by (simp_all add: tc_fail_def tc_fail_with_def result_wf_append_zero)
  have tags: "tag (tc_fail (Some ''first'')) = TC_FAIL"
    "tag (tc_fail_with (Some ''second'') (Some ''1'') (Some ''2'')) = TC_FAIL"
    "tag (tc_skip (Some ''why'')) = TC_SKIP" "tag tc_pass = TC_PASS"
    by (simp_all add: tc_fail_fields tc_fail_with_fields tc_skip_fields tc_pass_fields)
  have cnt: "error_count (tc_fail (Some ''first'')) = 1"
    "error_count (tc_fail_with (Some ''second'') (Some ''1'') (Some ''2'')) = 1"
    by (simp_all add: tc_fail_def tc_fail_with_def append_error_zero)
  have used: "used_errors (tc_fail (Some ''first'')) = [\<lparr>message = ''first'', expected = [], actual = []\<rparr>]"
    "used_errors (tc_fail_with (Some ''second'') (Some ''1'') (Some ''2'')) =
       [\<lparr>message = ''second'', expected = ''1'', actual = ''2''\<rparr>]"
    by (simp_all add: tc_fail_def tc_fail_with_def used_errors_append_zero tc__safe_copy_def
        TC_MAX_MSG_LEN_def)
  have big: "(2::nat) \<le> TC_MAX_ERRORS" "(2::int) \<le> int TC_MAX_ERRORS"
    by (simp_all add: TC_MAX_ERRORS_def)
  show ?thesis
    using tc_combine_spec[of "tc_fail (Some ''first'')"
        "tc_fail_with (Some ''second'') (Some ''1'') (Some ''2'')"]
      tc_combine_spec[of "tc_skip (Some ''why'')" "tc_fail (Some ''first'')"]
      tc_combine_spec[of "tc_fail (Some ''first'')" "tc_skip (Some ''why'')"]
      tc_combine_spec[of tc_pass tc_pass]
      wa wb tags cnt used big
    by simp
qed

lemma result_wf_combine:
  assumes "result_wf a" and "result_wf b"
  shows "result_wf (tc_combine a b)"

proof -
  have "result_wf (tc__copy_errors b 0 (tc__copy_errors a 0 (zero_result\<lparr>tag := TC_FAIL\<rparr>)))"
    using combine_loops(3,4)[OF assms, of TC_FAIL] assms
    by (simp add: result_wf_def)
  then show ?thesis using assms by (simp add: tc_combine_def)

qed

lemma safe_copy_short: "length m < mx \<Longrightarrow> tc__safe_copy (Some m) mx = m"
  by (simp add: tc__safe_copy_def)

text \<open>
  Claim C8, as amended. \<open>tc_pass\<close> is tagged Pass with \<open>error_count = 0\<close>;
  \<open>tc_fail\<close>, \<open>tc_fail_with\<close> and \<open>tc_skip\<close> are tagged Fail, Fail and Skip with
  \<open>error_count = 1\<close> (so at least 1), and their first error record holds the bounded
  copy \<open>tc__safe_copy\<close> of the primary message: nothing for a \<open>NULL\<close> message, the
  first \<open>TC_MAX_MSG_LEN - 1\<close> characters otherwise, which is the whole message when it is
  shorter than \<open>TC_MAX_MSG_LEN\<close>. Every constructor yields a result with
  \<open>0 \<le> error_count \<le> TC_MAX_ERRORS\<close>, and \<open>tc_combine\<close> keeps it.
\<close>

theorem constructors_invariant:
  "tag tc_pass = TC_PASS \<and> error_count tc_pass = 0 \<and>
   tag (tc_fail msg) = TC_FAIL \<and> error_count (tc_fail msg) = 1 \<and>
   message (errors (tc_fail msg) ! 0) = tc__safe_copy msg TC_MAX_MSG_LEN \<and>
   tag (tc_fail_with msg expd act) = TC_FAIL \<and> error_count (tc_fail_with msg expd act) = 1 \<and>
   errors (tc_fail_with msg expd act) ! 0 =
     \<lparr>message = tc__safe_copy msg TC_MAX_MSG_LEN, expected = tc__safe_copy expd TC_MAX_MSG_LEN,
      actual = tc__safe_copy act TC_MAX_MSG_LEN\<rparr> \<and>
   tag (tc_skip msg) = TC_SKIP \<and> error_count (tc_skip msg) = 1 \<and>
   message (errors (tc_skip msg) ! 0) = tc__safe_copy msg TC_MAX_MSG_LEN \<and>
   tc__safe_copy None TC_MAX_MSG_LEN = [] \<and>
   tc__safe_copy (Some m) TC_MAX_MSG_LEN = take (TC_MAX_MSG_LEN - 1) m \<and>
   (length m < TC_MAX_MSG_LEN \<longrightarrow> tc__safe_copy (Some m) TC_MAX_MSG_LEN = m) \<and>
   result_wf tc_pass \<and> result_wf (tc_fail msg) \<and> result_wf (tc_fail_with msg expd act) \<and>
   result_wf (tc_skip msg) \<and>
   (result_wf a \<and> result_wf b \<longrightarrow> result_wf (tc_combine a b))"

proof -
  have "result_wf tc_pass" "result_wf (tc_fail msg)" "result_wf (tc_fail_with msg expd act)"
    "result_wf (tc_skip msg)"
    by (simp_all add: tc_pass_def tc_fail_def tc_fail_with_def tc_skip_def result_wf_zero
        result_wf_append_zero)
  moreover have "tc__safe_copy None TC_MAX_MSG_LEN = []"
    by (simp add: tc__safe_copy_def)
  ultimately show ?thesis
    using safe_copy_take[OF TC_MAX_MSG_LEN_pos, of m] safe_copy_short[of m TC_MAX_MSG_LEN]
      result_wf_combine[of a b]
    by (simp add: tc_pass_fields tc_fail_fields tc_fail_with_fields tc_skip_fields)

qed

text \<open>
  The theorem at concrete messages, and at a failure combined with a pass.
\<close>

theorem constructors_invariant_witness:
  "message (errors (tc_fail (Some ''boom'')) ! 0) = ''boom'' \<and>
   errors (tc_fail_with (Some ''boom'') (Some ''4'') (Some ''5'')) ! 0 =
     \<lparr>message = ''boom'', expected = ''4'', actual = ''5''\<rparr> \<and>
   message (errors (tc_skip None) ! 0) = [] \<and>
   result_wf (tc_fail (Some ''boom'')) \<and> result_wf tc_pass \<and>
   result_wf (tc_combine (tc_fail (Some ''boom'')) tc_pass)"

proof -
  have len: "length ''boom'' < TC_MAX_MSG_LEN" "length ''4'' < TC_MAX_MSG_LEN"
    "length ''5'' < TC_MAX_MSG_LEN"
    by (simp_all add: TC_MAX_MSG_LEN_def)
  show ?thesis
    using constructors_invariant[of "Some ''boom''" "Some ''4''" "Some ''5''" "''boom''"
        "tc_fail (Some ''boom'')" tc_pass]
      constructors_invariant[of None None None "''4''" tc_pass tc_pass]
      constructors_invariant[of None None None "''5''" tc_pass tc_pass]
      len
    by simp

qed

text \<open>
  Claim C8 as stated fails for a long message: a message of \<open>TC_MAX_MSG_LEN\<close> = 512
  characters is not what the first error record of \<open>tc_fail\<close> holds (it holds 511 of them).
\<close>

theorem constructors_message_counterexample:
  "message (errors (tc_fail (Some (replicate 512 (CHR ''a'')))) ! 0) \<noteq> replicate 512 (CHR ''a'')"

proof
  assume "message (errors (tc_fail (Some (replicate 512 (CHR ''a'')))) ! 0) = replicate 512 (CHR ''a'')"
  then have "length (message (errors (tc_fail (Some (replicate 512 (CHR ''a'')))) ! 0)) = 512"
    by simp
  then show False
    by (simp add: tc_fail_fields tc__safe_copy_def TC_MAX_MSG_LEN_def)

qed

section \<open>Properties of statically skipped tests\<close>

text \<open>
  Claim C3, as amended. For a test without function, whatever the environment handle and
  the state, \<open>tc_run_test\<close> returns \<open>tc_skip\<close> of the configured reason, or of
  \<open>"skipped"\<close> when no reason is configured: a result tagged Skip, with zero elapsed
  time, whose first error message is that text cut to \<open>TC_MAX_MSG_LEN - 1\<close> characters.
  The state is returned as it was: no user function is called, the world and the clock are
  untouched.
\<close>

theorem tc_run_test_static_skip:
  "fn test = None \<Longrightarrow>
   tc_run_test test env s =
     (tc_skip (Some (case skip_reason test of Some reason \<Rightarrow> reason | None \<Rightarrow> ''skipped'')), s) \<and>
   tag (fst (tc_run_test test env s)) = TC_SKIP \<and>
   elapsed_ms (fst (tc_run_test test env s)) = 0 \<and>
   message (errors (fst (tc_run_test test env s)) ! 0) =
     take (TC_MAX_MSG_LEN - 1)
       (case skip_reason test of Some reason \<Rightarrow> reason | None \<Rightarrow> ''skipped'') \<and>
   calls (snd (tc_run_test test env s)) = calls s \<and>
   world (snd (tc_run_test test env s)) = world s \<and>
   snd (tc_run_test test env s) = s"
  using safe_copy_take[OF TC_MAX_MSG_LEN_pos]
  by (simp add: tc_run_test_def tc_skip_fields split: option.splits)

text \<open>
  The theorem at the statically skipped test of the sample program.
\<close>

theorem tc_run_test_static_skip_witness:
  "fn (tc_skip_test ''not implemented'' (Some ''waiting for feature X'') :: (unit, nat) Test) = None \<and>
   tag (fst (tc_run_test (tc_skip_test ''not implemented'' (Some ''waiting for feature X''))
                (Some (7::nat)) sys0)) = TC_SKIP \<and>
   elapsed_ms (fst (tc_run_test (tc_skip_test ''not implemented'' (Some ''waiting for feature X''))
                (Some (7::nat)) sys0)) = 0 \<and>
   message (errors (fst (tc_run_test (tc_skip_test ''not implemented'' (Some ''waiting for feature X''))
                (Some (7::nat)) sys0)) ! 0) = ''waiting for feature X'' \<and>
   snd (tc_run_test (tc_skip_test ''not implemented'' (Some ''waiting for feature X''))
                (Some (7::nat)) sys0) = sys0"

proof -
  have f: "fn (tc_skip_test ''not implemented'' (Some ''waiting for feature X'') :: (unit, nat) Test) = None"
    and r: "skip_reason (tc_skip_test ''not implemented'' (Some ''waiting for feature X'') :: (unit, nat) Test)
             = Some ''waiting for feature X''"
    by (simp_all add: tc_skip_test_def)
  have t: "take (TC_MAX_MSG_LEN - 1) ''waiting for feature X'' = ''waiting for feature X''"
    by (simp add: TC_MAX_MSG_LEN_def)
  note th = tc_run_test_static_skip[OF f, of "Some 7" sys0, unfolded r option.case t]
  from th have a: "tag (fst (tc_run_test (tc_skip_test ''not implemented'' (Some ''waiting for feature X''))
                (Some (7::nat)) sys0)) = TC_SKIP" by (elim conjE)
  from th have b: "elapsed_ms (fst (tc_run_test (tc_skip_test ''not implemented'' (Some ''waiting for feature X''))
                (Some (7::nat)) sys0)) = 0" by (elim conjE)
  from th have c: "message (errors (fst (tc_run_test (tc_skip_test ''not implemented'' (Some ''waiting for feature X''))
                (Some (7::nat)) sys0)) ! 0) = ''waiting for feature X''" by (elim conjE)
  from th have d: "snd (tc_run_test (tc_skip_test ''not implemented'' (Some ''waiting for feature X''))
                (Some (7::nat)) sys0) = sys0" by (elim conjE)
  show ?thesis by (intro conjI f a b c d)

qed

text \<open>
  Claim C3 as stated fails for a long reason: with a configured reason of
  \<open>TC_MAX_MSG_LEN\<close> = 512 characters the first error message is not that reason.
\<close>

theorem tc_run_test_static_skip_counterexample:
  "message (errors (fst (tc_run_test
       (\<lparr>name = ''t'', fn = None, skip_reason = Some (replicate 512 (CHR ''a''))\<rparr> :: (unit, nat) Test)
       None sys0)) ! 0) \<noteq> replicate 512 (CHR ''a'')"

proof
  assume "message (errors (fst (tc_run_test
       (\<lparr>name = ''t'', fn = None, skip_reason = Some (replicate 512 (CHR ''a''))\<rparr> :: (unit, nat) Test)
       None sys0)) ! 0) = replicate 512 (CHR ''a'')"
  then have "length (message (errors (fst (tc_run_test
       (\<lparr>name = ''t'', fn = None, skip_reason = Some (replicate 512 (CHR ''a''))\<rparr> :: (unit, nat) Test)
       None sys0)) ! 0)) = 512"
    by simp
  then show False
    by (simp add: tc_run_test_def tc_skip_fields tc__safe_copy_def TC_MAX_MSG_LEN_def)

qed

section \<open>Properties of the XML escaping\<close>

lemma xml_unescape_entity: "xml_unescape (tc__xml_entity c @ rest) = c # xml_unescape rest"
  by (simp add: tc__xml_entity_def)

lemma xml_unescape_escaped: "xml_unescape (concat (map tc__xml_entity xs)) = xs"
  by (induction xs) (simp_all add: xml_unescape_entity del: xml_unescape.simps(2))

lemma xml_entity_length: "1 \<le> length (tc__xml_entity c) \<and> length (tc__xml_entity c) \<le> 6"
  by (simp add: tc__xml_entity_def)

lemma xml_escape_loop_prefix:
  "\<exists>k\<le>length src. tc__xml_escape_loop src mx dst = dst @ concat (map tc__xml_entity (take k src))"

proof (induction src arbitrary: dst)
  case Nil
  then show ?case by simp

next
  case (Cons c cs)
  show ?case
  proof (cases "length dst < size_t_sub6 mx")
    case True
    obtain k where k: "k \<le> length cs"
      "tc__xml_escape_loop cs mx (dst @ tc__xml_entity c) =
         (dst @ tc__xml_entity c) @ concat (map tc__xml_entity (take k cs))"
      using Cons.IH[of "dst @ tc__xml_entity c"] by blast
    show ?thesis
      by (rule exI[of _ "Suc k"]) (use True k in simp)
  next
    case False
    show ?thesis
      by (rule exI[of _ 0]) (use False in simp)
  qed

qed

lemma xml_escape_loop_all:
  "length dst + length (concat (map tc__xml_entity src)) \<le> size_t_sub6 mx \<Longrightarrow>
   tc__xml_escape_loop src mx dst = dst @ concat (map tc__xml_entity src)"

proof (induction src arbitrary: dst)
  case Nil
  then show ?case by simp

next
  case (Cons c cs)
  have "length dst < size_t_sub6 mx"
    using Cons.prems xml_entity_length[of c] by simp
  moreover have "length (dst @ tc__xml_entity c) + length (concat (map tc__xml_entity cs))
      \<le> size_t_sub6 mx"
    using Cons.prems by simp
  ultimately show ?case using Cons.IH[of "dst @ tc__xml_entity c"] by simp

qed

lemma xml_escape_loop_length:
  "length (tc__xml_escape_loop src mx dst) \<le> max (length dst) (size_t_sub6 mx + 5)"

proof (induction src arbitrary: dst)
  case Nil
  then show ?case by simp

next
  case (Cons c cs)
  show ?case
  proof (cases "length dst < size_t_sub6 mx")
    case True
    have "length (dst @ tc__xml_entity c) \<le> size_t_sub6 mx + 5"
      using True xml_entity_length[of c] by simp
    then show ?thesis using Cons.IH[of "dst @ tc__xml_entity c"] True by simp
  next
    case False
    then show ?thesis by simp
  qed

qed

lemma xml_escape_loop_stop:
  "\<exists>k\<le>length src.
     tc__xml_escape_loop src mx dst = dst @ concat (map tc__xml_entity (take k src)) \<and>
     (k < length src \<longrightarrow> size_t_sub6 mx \<le> length (tc__xml_escape_loop src mx dst)) \<and>
     (\<forall>j<k. length dst + length (concat (map tc__xml_entity (take j src))) < size_t_sub6 mx)"

proof (induction src arbitrary: dst)
  case Nil
  then show ?case by simp

next
  case (Cons c cs)
  show ?case
  proof (cases "length dst < size_t_sub6 mx")
    case True
    obtain k where k: "k \<le> length cs"
      "tc__xml_escape_loop cs mx (dst @ tc__xml_entity c) =
         (dst @ tc__xml_entity c) @ concat (map tc__xml_entity (take k cs))"
      "k < length cs \<longrightarrow>
         size_t_sub6 mx \<le> length (tc__xml_escape_loop cs mx (dst @ tc__xml_entity c))"
      "\<forall>j<k. length (dst @ tc__xml_entity c) + length (concat (map tc__xml_entity (take j cs)))
              < size_t_sub6 mx"
      using Cons.IH[of "dst @ tc__xml_entity c"] by blast
    have all: "\<forall>j<Suc k. length dst + length (concat (map tc__xml_entity (take j (c # cs))))
                 < size_t_sub6 mx"
    proof (intro allI impI)
      fix j assume j: "j < Suc k"
      show "length dst + length (concat (map tc__xml_entity (take j (c # cs)))) < size_t_sub6 mx"
      proof (cases j)
        case 0
        then show ?thesis using True by simp
      next
        case (Suc j')
        then have "j' < k" using j by simp
        then show ?thesis using k(4) Suc by (simp add: add.assoc)
      qed
    qed
    show ?thesis
    proof (intro exI[of _ "Suc k"] conjI)
      show "Suc k \<le> length (c # cs)" using k(1) by simp
      show "tc__xml_escape_loop (c # cs) mx dst =
              dst @ concat (map tc__xml_entity (take (Suc k) (c # cs)))"
        using True k(2) by simp
      show "Suc k < length (c # cs) \<longrightarrow>
              size_t_sub6 mx \<le> length (tc__xml_escape_loop (c # cs) mx dst)"
        using True k(3) by simp
      show "\<forall>j<Suc k. length dst + length (concat (map tc__xml_entity (take j (c # cs))))
                 < size_t_sub6 mx"
        by (rule all)
    qed
  next
    case False
    show ?thesis
      by (rule exI[of _ 0]) (use False in simp)
  qed

qed

text \<open>
  Claim C7, as amended. Each of the five reserved characters is replaced by its named
  substitution and every other character is copied. The loop stops at the first character
  before which \<open>max - 6\<close> or more characters have been written: the text produced is the
  escaping of the first \<open>k\<close> characters of the input, where every shorter prefix escapes
  to fewer than \<open>max - 6\<close> characters and, unless \<open>k\<close> is the whole input, the text
  produced has at least \<open>max - 6\<close> characters. It never has more than \<open>max - 1\<close>
  characters, and un-escaping it gives those \<open>k\<close> characters back. When the escaping of
  the whole input has at most \<open>max - 6\<close> characters (1018 for the buffers of the report
  writer), the whole input is escaped and un-escaping gives the input back.
\<close>

theorem tc__xml_escape_stop_roundtrip:
  \<open>tc__xml_entity (CHR ''&'') = ''&amp;'' \<and> tc__xml_entity (CHR ''<'') = ''&lt;'' \<and>
   tc__xml_entity (CHR ''>'') = ''&gt;'' \<and> tc__xml_entity (CHR 0x22) = ''&quot;'' \<and>
   tc__xml_entity (CHR 0x27) = ''&apos;'' \<and>
   (c \<notin> {CHR ''&'', CHR ''<'', CHR ''>'', CHR 0x22, CHR 0x27} \<longrightarrow> tc__xml_entity c = [c]) \<and>
   (\<exists>k. k \<le> length str \<and>
        tc__xml_escape (Some str) mx = concat (map tc__xml_entity (take k str)) \<and>
        xml_unescape (tc__xml_escape (Some str) mx) = take k str \<and>
        (k < length str \<longrightarrow> size_t_sub6 mx \<le> length (tc__xml_escape (Some str) mx)) \<and>
        (\<forall>j<k. length (concat (map tc__xml_entity (take j str))) < size_t_sub6 mx)) \<and>
   length (tc__xml_escape (Some str) mx) \<le> size_t_sub6 mx + 5 \<and>
   (length (concat (map tc__xml_entity str)) \<le> size_t_sub6 mx \<longrightarrow>
      tc__xml_escape (Some str) mx = concat (map tc__xml_entity str) \<and>
      xml_unescape (tc__xml_escape (Some str) mx) = str) \<and>
   size_t_sub6 (TC_MAX_MSG_LEN * 2) = 1018\<close>

proof -
  obtain k where k: "k \<le> length str"
    "tc__xml_escape_loop str mx [] = [] @ concat (map tc__xml_entity (take k str))"
    "k < length str \<longrightarrow> size_t_sub6 mx \<le> length (tc__xml_escape_loop str mx [])"
    "\<forall>j<k. length ([] :: string) + length (concat (map tc__xml_entity (take j str))) < size_t_sub6 mx"
    using xml_escape_loop_stop[of str mx "[]"] by blast
  have a: "\<exists>k. k \<le> length str \<and>
        tc__xml_escape (Some str) mx = concat (map tc__xml_entity (take k str)) \<and>
        xml_unescape (tc__xml_escape (Some str) mx) = take k str \<and>
        (k < length str \<longrightarrow> size_t_sub6 mx \<le> length (tc__xml_escape (Some str) mx)) \<and>
        (\<forall>j<k. length (concat (map tc__xml_entity (take j str))) < size_t_sub6 mx)"
    by (rule exI[of _ k]) (use k in \<open>simp add: tc__xml_escape_def xml_unescape_escaped\<close>)
  have l: "length (tc__xml_escape (Some str) mx) \<le> size_t_sub6 mx + 5"
    using xml_escape_loop_length[of str mx "[]"] by (simp add: tc__xml_escape_def)
  have b: "length (concat (map tc__xml_entity str)) \<le> size_t_sub6 mx \<longrightarrow>
      tc__xml_escape (Some str) mx = concat (map tc__xml_entity str) \<and>
      xml_unescape (tc__xml_escape (Some str) mx) = str"
    using xml_escape_loop_all[of "[]" str mx]
    by (simp add: tc__xml_escape_def xml_unescape_escaped)
  have c: "size_t_sub6 (TC_MAX_MSG_LEN * 2) = 1018"
    by (simp add: size_t_sub6_def TC_MAX_MSG_LEN_def)
  have d: "tc__xml_entity (CHR ''&'') = ''&amp;''" "tc__xml_entity (CHR ''<'') = ''&lt;''"
   "tc__xml_entity (CHR ''>'') = ''&gt;''" "tc__xml_entity (CHR 0x22) = ''&quot;''"
   "tc__xml_entity (CHR 0x27) = ''&apos;''"
   "c \<notin> {CHR ''&'', CHR ''<'', CHR ''>'', CHR 0x22, CHR 0x27} \<longrightarrow> tc__xml_entity c = [c]"
    by (simp_all add: tc__xml_entity_def)
  show ?thesis by (intro conjI a l b c d)

qed

text \<open>
  The theorem at a short string holding three of the reserved characters, and the length
  bound at a message of 200 double quotes.
\<close>

theorem tc__xml_escape_stop_roundtrip_witness:
  \<open>tc__xml_escape (Some ''a<b & "c"'') (TC_MAX_MSG_LEN * 2) = ''a&lt;b &amp; &quot;c&quot;'' \<and>
   xml_unescape (tc__xml_escape (Some ''a<b & "c"'') (TC_MAX_MSG_LEN * 2)) = ''a<b & "c"'' \<and>
   length (tc__xml_escape (Some (replicate 200 (CHR 0x22))) (TC_MAX_MSG_LEN * 2)) \<le> 1023\<close>

proof -
  have e: \<open>concat (map tc__xml_entity ''a<b & "c"'') = ''a&lt;b &amp; &quot;c&quot;''\<close>
    by (simp add: tc__xml_entity_def)
  have l: \<open>length (concat (map tc__xml_entity ''a<b & "c"'')) \<le> size_t_sub6 (TC_MAX_MSG_LEN * 2)\<close>
    unfolding e by (simp add: size_t_sub6_def TC_MAX_MSG_LEN_def)
  have a: \<open>tc__xml_escape (Some ''a<b & "c"'') (TC_MAX_MSG_LEN * 2) =
          concat (map tc__xml_entity ''a<b & "c"'') \<and>
        xml_unescape (tc__xml_escape (Some ''a<b & "c"'') (TC_MAX_MSG_LEN * 2)) = ''a<b & "c"''\<close>
    using tc__xml_escape_stop_roundtrip[of "CHR ''a''" \<open>''a<b & "c"''\<close> "TC_MAX_MSG_LEN * 2"] l
    by blast
  have b: "length (tc__xml_escape (Some (replicate 200 (CHR 0x22))) (TC_MAX_MSG_LEN * 2)) \<le>
           size_t_sub6 (TC_MAX_MSG_LEN * 2) + 5"
    using tc__xml_escape_stop_roundtrip[of "CHR ''a''" "replicate 200 (CHR 0x22)" "TC_MAX_MSG_LEN * 2"]
    by blast
  have c: "size_t_sub6 (TC_MAX_MSG_LEN * 2) + 5 = 1023"
    by (simp add: size_t_sub6_def TC_MAX_MSG_LEN_def)
  show ?thesis using a b unfolding e c by blast

qed

text \<open>
  Claim C7 as stated fails within the configured bounds: a message of 200 double quotes
  is shorter than \<open>TC_MAX_MSG_LEN\<close>, and un-escaping its escaped text does not give it
  back (the escaped text stops after 170 of them).
\<close>

theorem tc__xml_escape_roundtrip_counterexample:
  "length (replicate 200 (CHR 0x22)) < TC_MAX_MSG_LEN \<and>
   xml_unescape (tc__xml_escape (Some (replicate 200 (CHR 0x22))) (TC_MAX_MSG_LEN * 2))
     \<noteq> replicate 200 (CHR 0x22)"

proof -
  define out where "out = tc__xml_escape (Some (replicate 200 (CHR 0x22))) (TC_MAX_MSG_LEN * 2)"
  obtain k where k: "k \<le> 200"
     "out = concat (map tc__xml_entity (take k (replicate 200 (CHR 0x22))))"
    using xml_escape_loop_prefix[of "replicate 200 (CHR 0x22)" "TC_MAX_MSG_LEN * 2" "[]"]
    by (auto simp add: out_def tc__xml_escape_def)
  have "take k (replicate 200 (CHR 0x22)) = replicate k (CHR 0x22)"
    using k(1) by (simp add: min_def)
  then have o: "out = concat (replicate k (tc__xml_entity (CHR 0x22)))"
    using k(2) by (simp add: map_replicate_const)
  have "length out = 6 * k"
    unfolding o by (simp add: length_concat tc__xml_entity_def sum_list_replicate)
  moreover have "length out \<le> 1023"
    using xml_escape_loop_length[of "replicate 200 (CHR 0x22)" "TC_MAX_MSG_LEN * 2" "[]"]
    by (simp add: out_def tc__xml_escape_def size_t_sub6_def TC_MAX_MSG_LEN_def)
  ultimately have "k < 200" by simp
  moreover have "xml_unescape out = replicate k (CHR 0x22)"
    unfolding o using xml_unescape_escaped[of "replicate k (CHR 0x22)"]
    by (simp add: map_replicate_const)
  ultimately have "xml_unescape out \<noteq> replicate 200 (CHR 0x22)"
    by (metis length_replicate less_irrefl)
  then show ?thesis by (simp add: out_def TC_MAX_MSG_LEN_def)

qed

section \<open>Properties of the runners\<close>

declare tc__run_tests.simps [simp del]

lemma c_int_add_0: "c_int_add 0 x = x" "c_int_add x 0 = x"
  by (simp_all add: c_int_add_def c_int_def)

lemma c_int_add_exact: "c_int a \<Longrightarrow> c_int b \<Longrightarrow> c_int (a + b) \<Longrightarrow> c_int_add a b = a + b"
  by (simp add: c_int_add_def c_int_def)

lemma tc__get_time_ms_fields:
  "fst (tc__get_time_ms s) = clock s (ticks s)"
  "world (snd (tc__get_time_ms s)) = world s"
  "calls (snd (tc__get_time_ms s)) = calls s"
  "stdout (snd (tc__get_time_ms s)) = stdout s"
  "tc__results (snd (tc__get_time_ms s)) = tc__results s"
  "tc__result_counts (snd (tc__get_time_ms s)) = tc__result_counts s"
  by (simp_all add: tc__get_time_ms_def)

lemma printf_fields:
  "world (printf txt s) = world s" "calls (printf txt s) = calls s"
  "stdout (printf txt s) = stdout s @ [txt]"
  "tc__results (printf txt s) = tc__results s"
  "tc__result_counts (printf txt s) = tc__result_counts s"
  by (simp_all add: printf_def)

text \<open>
  Claim C2. When the setup function of a suite is present and returns a nonzero value,
  \<open>tc__run_suite_ex\<close> (for every \<open>suite_idx\<close>, hence \<open>tc_run_suite\<close> and the run of
  the suite inside \<open>tc_run_all\<close>) returns the summary with \<open>failed = test_count\<close>,
  \<open>passed = 0\<close> and \<open>skipped = 0\<close>. The only user function called is setup: the call
  record grows by that one call and the world is the one setup left, so no test function
  and no teardown function is invoked. No result snapshot is stored.
\<close>

theorem setup_failure_fails_suite:
  assumes "setup_fn suite = Some su" and "su (world s) = ((ret, env), w)" and "ret \<noteq> 0"
  shows
    "fst (tc__run_suite_ex ff suite suite_idx s) =
       \<lparr>passed = 0, failed = test_count suite, skipped = 0, total_ms = 0\<rparr> \<and>
     calls (snd (tc__run_suite_ex ff suite suite_idx s)) = calls s @ [Call_setup (suite_name suite)] \<and>
     world (snd (tc__run_suite_ex ff suite suite_idx s)) = w \<and>
     tc__results (snd (tc__run_suite_ex ff suite suite_idx s)) = tc__results s \<and>
     tc__result_counts (snd (tc__run_suite_ex ff suite suite_idx s)) = tc__result_counts s \<and>
     tc_run_suite ff suite s = tc__run_suite_ex ff suite (- 1) s \<and>
     passed (fst (tc_run_all ff [suite] s)) = 0 \<and>
     failed (fst (tc_run_all ff [suite] s)) = test_count suite \<and>
     skipped (fst (tc_run_all ff [suite] s)) = 0 \<and>
     calls (snd (tc_run_all ff [suite] s)) = calls s @ [Call_setup (suite_name suite)] \<and>
     world (snd (tc_run_all ff [suite] s)) = w"

proof -
  have ex: "\<And>idx s'. world s' = world s \<Longrightarrow>
     tc__run_suite_ex ff suite idx s' =
       (zero_summary\<lparr>failed := test_count suite\<rparr>,
        printf (''  '' @ TC__RED @ [CHR 0xE2, CHR 0x9C, CHR 0x97] @
                '' Setup failed (returned '' @ show_int ret @ '')'' @ TC__RESET @ nl)
          ((printf (nl @ ''=== '' @ suite_name suite @ '' ==='' @ nl) (snd (tc__get_time_ms s')))
             \<lparr>world := w,
              calls := calls s' @ [Call_setup (suite_name suite)]\<rparr>))"
    using assms
    by (simp add: tc__run_suite_ex_def Let_def split_beta printf_fields tc__get_time_ms_fields)
  have a: "fst (tc__run_suite_ex ff suite suite_idx s) =
       \<lparr>passed = 0, failed = test_count suite, skipped = 0, total_ms = 0\<rparr>"
    "calls (snd (tc__run_suite_ex ff suite suite_idx s)) = calls s @ [Call_setup (suite_name suite)]"
    "world (snd (tc__run_suite_ex ff suite suite_idx s)) = w"
    "tc__results (snd (tc__run_suite_ex ff suite suite_idx s)) = tc__results s"
    "tc__result_counts (snd (tc__run_suite_ex ff suite suite_idx s)) = tc__result_counts s"
    by (simp_all add: ex[of s suite_idx] zero_summary_def printf_fields tc__get_time_ms_fields)
  have b: "tc_run_suite ff suite s = tc__run_suite_ex ff suite (- 1) s"
    by (simp add: tc_run_suite_def)
  define s0 where "s0 = snd (tc__get_time_ms (s\<lparr>tc__result_counts := (\<lambda>_. 0)\<rparr>))"
  have w0: "world s0 = world s" "calls s0 = calls s"
    by (simp_all add: s0_def tc__get_time_ms_def)
  have c: "passed (fst (tc_run_all ff [suite] s)) = 0"
     "failed (fst (tc_run_all ff [suite] s)) = test_count suite"
     "skipped (fst (tc_run_all ff [suite] s)) = 0"
     "calls (snd (tc_run_all ff [suite] s)) = calls s @ [Call_setup (suite_name suite)]"
     "world (snd (tc_run_all ff [suite] s)) = w"
    using w0
    by (simp_all add: tc_run_all_def tc__run_all_ex_def Let_def split_beta ex[of s0 0]
        s0_def[symmetric] zero_summary_def printf_fields tc__get_time_ms_fields c_int_add_0)
  show ?thesis by (intro conjI a b c)

qed

lemma suite_loop_frame:
  "suite_name (tc__suite_loop ts i s) = suite_name s \<and>
   setup_fn (tc__suite_loop ts i s) = setup_fn s \<and>
   teardown_fn (tc__suite_loop ts i s) = teardown_fn s \<and>
   length (tests (tc__suite_loop ts i s)) = length (tests s)"
  by (induction ts i s rule: tc__suite_loop.induct) simp_all

lemma suite_loop_count:
  "i \<le> TC_MAX_TESTS_PER_SUITE \<Longrightarrow>
   test_count (tc__suite_loop ts i s) = int (min (i + length ts) TC_MAX_TESTS_PER_SUITE)"
  by (induction ts i s rule: tc__suite_loop.induct) auto

lemma suite_loop_tests:
  "i \<le> TC_MAX_TESTS_PER_SUITE \<Longrightarrow> length (tests s) = TC_MAX_TESTS_PER_SUITE \<Longrightarrow>
   take (min (i + length ts) TC_MAX_TESTS_PER_SUITE) (tests (tc__suite_loop ts i s)) =
     take i (tests s) @ take (TC_MAX_TESTS_PER_SUITE - i) ts"

proof (induction ts i s rule: tc__suite_loop.induct)
  case (1 i s)
  then show ?case by (simp add: min_def)

next
  case (2 t ts i s)
  show ?case
  proof (cases "i < TC_MAX_TESTS_PER_SUITE")
    case True
    obtain d where d: "TC_MAX_TESTS_PER_SUITE - i = Suc d" "TC_MAX_TESTS_PER_SUITE - Suc i = d"
      using True by (metis Suc_diff_Suc)
    have "take (min (Suc i + length ts) TC_MAX_TESTS_PER_SUITE)
            (tests (tc__suite_loop ts (Suc i) (s\<lparr>tests := (tests s)[i := t]\<rparr>))) =
          take (Suc i) ((tests s)[i := t]) @ take d ts"
      using "2.IH"[OF True] True "2.prems" d by simp
    also have "take (Suc i) ((tests s)[i := t]) = take i (tests s) @ [t]"
      using True "2.prems" by (simp add: take_Suc_conv_app_nth)
    finally show ?thesis using True d by simp
  next
    case False
    then show ?thesis using "2.prems" by simp
  qed

qed

lemma tc_suite_with_fields:
  "suite_name (tc_suite_with nm su td ts) = nm"
  "setup_fn (tc_suite_with nm su td ts) = su"
  "teardown_fn (tc_suite_with nm su td ts) = td"
  "test_count (tc_suite_with nm su td ts) = int (min (length ts) TC_MAX_TESTS_PER_SUITE)"
  "length (tests (tc_suite_with nm su td ts)) = TC_MAX_TESTS_PER_SUITE"
  "take (min (length ts) TC_MAX_TESTS_PER_SUITE) (tests (tc_suite_with nm su td ts)) =
     take TC_MAX_TESTS_PER_SUITE ts"
  using suite_loop_tests[of 0 "zero_suite\<lparr>suite_name := nm, setup_fn := su, teardown_fn := td\<rparr>" ts]
  by (simp_all add: tc_suite_with_def suite_loop_frame suite_loop_count zero_suite_def)

text \<open>
  The theorem at a suite of two tests whose setup returns \<open>-1\<close>, as the setup of the
  sample program does when it cannot create its directory.
\<close>

theorem setup_failure_fails_suite_witness:
  "setup_fn (tc_suite_with ''File Tests'' (Some (\<lambda>w. ((- 1, None), w))) (Some (\<lambda>e w. w))
       [\<lparr>name = ''can create file'', fn = Some (\<lambda>e w. (tc_pass, w)), skip_reason = None\<rparr>,
        \<lparr>name = ''can read file'', fn = Some (\<lambda>e w. (tc_pass, w)), skip_reason = None\<rparr>]
      :: (unit, nat) Suite) = Some (\<lambda>w. ((- 1, None), w)) \<and>
   fst (tc_run_suite (\<lambda>p x. ''?'')
      (tc_suite_with ''File Tests'' (Some (\<lambda>w. ((- 1, None), w))) (Some (\<lambda>e w. w))
       [\<lparr>name = ''can create file'', fn = Some (\<lambda>e w. (tc_pass, w)), skip_reason = None\<rparr>,
        \<lparr>name = ''can read file'', fn = Some (\<lambda>e w. (tc_pass, w)), skip_reason = None\<rparr>]
      :: (unit, nat) Suite) sys0) =
     \<lparr>passed = 0, failed = 2, skipped = 0, total_ms = 0\<rparr> \<and>
   calls (snd (tc_run_suite (\<lambda>p x. ''?'')
      (tc_suite_with ''File Tests'' (Some (\<lambda>w. ((- 1, None), w))) (Some (\<lambda>e w. w))
       [\<lparr>name = ''can create file'', fn = Some (\<lambda>e w. (tc_pass, w)), skip_reason = None\<rparr>,
        \<lparr>name = ''can read file'', fn = Some (\<lambda>e w. (tc_pass, w)), skip_reason = None\<rparr>]
      :: (unit, nat) Suite) sys0)) = [Call_setup ''File Tests'']"

proof -
  define suite :: "(unit, nat) Suite" where
    "suite = tc_suite_with ''File Tests'' (Some (\<lambda>w. ((- 1, None), w))) (Some (\<lambda>e w. w))
       [\<lparr>name = ''can create file'', fn = Some (\<lambda>e w. (tc_pass, w)), skip_reason = None\<rparr>,
        \<lparr>name = ''can read file'', fn = Some (\<lambda>e w. (tc_pass, w)), skip_reason = None\<rparr>]"
  have su: "setup_fn suite = Some (\<lambda>w. ((- 1, None), w))"
    and nm: "suite_name suite = ''File Tests''"
    and tc: "test_count suite = 2"
    by (simp_all add: suite_def tc_suite_with_fields TC_MAX_TESTS_PER_SUITE_def)
  have r: "(\<lambda>w. ((- 1, None), w)) (world sys0) = ((- 1 :: int, None :: nat option), ())"
    by (simp add: sys0_def)
  have ne: "(- 1 :: int) \<noteq> 0" by simp
  note th = setup_failure_fails_suite[OF su r ne, of "\<lambda>p x. ''?''" "- 1"]
  from th have a: "fst (tc__run_suite_ex (\<lambda>p x. ''?'') suite (- 1) sys0) =
       \<lparr>passed = 0, failed = test_count suite, skipped = 0, total_ms = 0\<rparr>" by (elim conjE)
  from th have b: "calls (snd (tc__run_suite_ex (\<lambda>p x. ''?'') suite (- 1) sys0)) =
      calls sys0 @ [Call_setup (suite_name suite)]" by (elim conjE)
  from th have c: "tc_run_suite (\<lambda>p x. ''?'') suite sys0 = tc__run_suite_ex (\<lambda>p x. ''?'') suite (- 1) sys0"
    by (elim conjE)
  have "setup_fn suite = Some (\<lambda>w. ((- 1, None), w)) \<and>
    fst (tc_run_suite (\<lambda>p x. ''?'') suite sys0) = \<lparr>passed = 0, failed = 2, skipped = 0, total_ms = 0\<rparr> \<and>
    calls (snd (tc_run_suite (\<lambda>p x. ''?'') suite sys0)) = [Call_setup ''File Tests'']"
    using su a b unfolding c tc nm by (simp add: sys0_def)
  then show ?thesis unfolding suite_def .

qed

section \<open>Properties of the stored results and of the report\<close>

lemma show_int_0: "show_int 0 = ''0''"
  by (simp add: show_int_def)

lemma tc_run_test_frame:
  "tc__result_counts (snd (tc_run_test t env s)) = tc__result_counts s"
  "tc__results (snd (tc_run_test t env s)) = tc__results s"
  by (simp_all add: tc_run_test_def tc__get_time_ms_def split_beta Let_def split: option.splits)

lemma tc_print_result_frame:
  "tc__result_counts (tc_print_result ff nm r s) = tc__result_counts s"
  "tc__results (tc_print_result ff nm r s) = tc__results s"
  "world (tc_print_result ff nm r s) = world s"
  "calls (tc_print_result ff nm r s) = calls s"
  by (simp_all add: tc_print_result_def printf_def split_beta Let_def split: ResultTag.splits)

lemma run_tests_counts_frame:
  "k \<noteq> nat suite_idx \<or> suite_idx < 0 \<Longrightarrow>
   tc__result_counts (snd (tc__run_tests ff suite suite_idx env i sm s)) k = tc__result_counts s k"

proof (induction ff suite suite_idx env i sm s rule: tc__run_tests.induct)
  case (1 ff suite suite_idx env i summary s)
  show ?case
  proof (cases "i < test_count suite")
    case True
    define rs where "rs = tc_run_test (tests suite ! nat i) env s"
    define r where "r = fst rs"
    define s1 where "s1 = tc_print_result ff (name (tests suite ! nat i)) r (snd rs)"
    define s2 where "s2 = (if 0 \<le> suite_idx \<and> suite_idx < int TC_MAX_SUITES then
                     s1\<lparr>tc__results := (tc__results s1)
                            (nat suite_idx := (tc__results s1 (nat suite_idx))(nat i := r)),
                        tc__result_counts := (tc__result_counts s1)(nat suite_idx := i + 1)\<rparr>
                   else s1)"
    define sm1 where "sm1 = (case tag r of
                  TC_PASS \<Rightarrow> summary\<lparr>passed := passed summary + 1\<rparr>
                | TC_FAIL \<Rightarrow> summary\<lparr>failed := failed summary + 1\<rparr>
                | TC_SKIP \<Rightarrow> summary\<lparr>skipped := skipped summary + 1\<rparr>)"
    have step: "tc__run_tests ff suite suite_idx env i summary s =
                tc__run_tests ff suite suite_idx env (i + 1) sm1 s2"
      using True
      by (subst tc__run_tests.simps) (simp add: Let_def rs_def r_def s1_def s2_def sm1_def)
    have ih: "tc__result_counts (snd (tc__run_tests ff suite suite_idx env (i + 1) sm1 s2)) k =
              tc__result_counts s2 k"
      using "1.IH"[OF True rs_def r_def s1_def s2_def sm1_def "1.prems"] .
    have "tc__result_counts s2 k = tc__result_counts s k"
      using "1.prems"
      by (auto simp add: s2_def s1_def rs_def tc_run_test_frame tc_print_result_frame)
    then show ?thesis by (simp add: step ih)
  next
    case False
    then show ?thesis by (subst tc__run_tests.simps) simp
  qed

qed

lemma run_suite_body_counts_frame:
  "k \<noteq> nat suite_idx \<or> suite_idx < 0 \<Longrightarrow>
   tc__result_counts (snd (tc__run_suite_body ff suite suite_idx env start s)) k =
     tc__result_counts s k"
  by (simp add: tc__run_suite_body_def split_beta Let_def printf_fields tc__get_time_ms_fields
      run_tests_counts_frame split: option.splits)

lemma run_suite_ex_counts_frame:
  "k \<noteq> nat suite_idx \<or> suite_idx < 0 \<Longrightarrow>
   tc__result_counts (snd (tc__run_suite_ex ff suite suite_idx s)) k = tc__result_counts s k"
  by (simp add: tc__run_suite_ex_def split_beta Let_def printf_fields tc__get_time_ms_fields
      run_suite_body_counts_frame split: option.splits)

lemma run_all_loop_counts_frame:
  "0 \<le> i \<Longrightarrow> k < nat i \<or> nat i + length suites \<le> k \<Longrightarrow>
   tc__result_counts (snd (tc__run_all_loop ff suites st i tot s)) k = tc__result_counts s k"

proof (induction suites arbitrary: i tot s)
  case Nil
  then show ?case by simp

next
  case (Cons x xs)
  have a: "k \<noteq> nat (if st then i else - 1) \<or> (if st then i else - 1) < 0"
    using Cons.prems by auto
  have b: "0 \<le> i + 1" "k < nat (i + 1) \<or> nat (i + 1) + length xs \<le> k"
    using Cons.prems by auto
  show ?case
    by (simp add: split_beta Let_def Cons.IH[OF b] run_suite_ex_counts_frame[OF a])

qed

lemma run_all_loop_append:
  "tc__run_all_loop ff (xs @ ys) st i tot s =
     tc__run_all_loop ff ys st (i + int (length xs))
       (fst (tc__run_all_loop ff xs st i tot s)) (snd (tc__run_all_loop ff xs st i tot s))"

proof (induction xs arbitrary: i tot s)
  case Nil
  then show ?case by simp

next
  case (Cons x xs)
  show ?case
    by (simp add: split_beta Let_def Cons.IH add_ac)

qed

lemma run_suite_ex_setup_failed:
  assumes "setup_fn suite = Some su" and "su (world s) = ((ret, env), w)" and "ret \<noteq> 0"
  shows "fst (tc__run_suite_ex ff suite idx s) = zero_summary\<lparr>failed := test_count suite\<rparr>"
    and "tc__result_counts (snd (tc__run_suite_ex ff suite idx s)) = tc__result_counts s"
  using assms
  by (simp_all add: tc__run_suite_ex_def Let_def split_beta printf_fields tc__get_time_ms_fields)

section \<open>Properties of the command line\<close>

declare tc__filter_tests.simps [simp del]


lemma TC_MAX_SUITES_pos: "0 < TC_MAX_SUITES"
  by (simp add: TC_MAX_SUITES_def)


lemma matches_examples:
  "tc__matches ''A'' ''A''" "\<not> tc__matches ''B'' ''A''"
  "tc__matches ''t1'' ''t1''" "\<not> tc__matches ''t2'' ''t1''" "\<not> tc__matches ''t3'' ''t1''"
  by simp_all






lemma no_options_fields:
  "\<not> list_only tc__no_options" "xml_file tc__no_options = None"
  "suite_filter tc__no_options = None" "test_filter tc__no_options = None"
  "match_filter tc__no_options = None"
  by (simp_all add: tc__no_options_def)
















text \<open>
  Claim C5, as amended. When the argument loop completes, no listing is asked for, the
  XML file (if any) can be created and the filter leaves no suite, \<open>tc_main\<close> prints
  \<open>No tests matched filters.\<close> and returns 1, without calling any user function. An
  empty suite collection leaves no suite under any filters, and \<open>tc_main\<close> without
  arguments on an empty collection prints the same message and returns 1: the two outcomes
  are not told apart.
\<close>

theorem no_tests_matched:
  "(tc__parse_args (drop 1 argv) tc__no_options = Some opts \<and> \<not> list_only opts \<and>
    (case xml_file opts of None \<Rightarrow> True | Some path \<Rightarrow> creatable s path) \<and>
    tc__filter_suites suites opts [] = [] \<longrightarrow>
      fst (tc_main ff argv suites s) = 1 \<and>
      stdout (snd (tc_main ff argv suites s)) = stdout s @ [''No tests matched filters.'' @ nl] \<and>
      stderr (snd (tc_main ff argv suites s)) = stderr s \<and>
      calls (snd (tc_main ff argv suites s)) = calls s \<and>
      world (snd (tc_main ff argv suites s)) = world s) \<and>
   tc__filter_suites ([] :: ('w, 'e) Suite list) opts [] = [] \<and>
   tc_main ff [prog] ([] :: ('w, 'e) Suite list) s =
     (1, printf (''No tests matched filters.'' @ nl) s)"
  by (auto simp add: tc_main_def tc__main_run_def printf_def no_options_fields
      split: option.splits)

text \<open>
  The theorem at a suite filter that matches no suite.
\<close>

theorem no_tests_matched_witness:
  "fst (tc_main (\<lambda>p x. ''?'') [''tests'', ''--suite'', ''Nope'']
     [tc_suite ''A'' [\<lparr>name = ''t1'', fn = Some (\<lambda>e w. (tc_pass, w)), skip_reason = None\<rparr>]
      :: (unit, nat) Suite] sys0) = 1 \<and>
   stdout (snd (tc_main (\<lambda>p x. ''?'') [''tests'', ''--suite'', ''Nope'']
     [tc_suite ''A'' [\<lparr>name = ''t1'', fn = Some (\<lambda>e w. (tc_pass, w)), skip_reason = None\<rparr>]
      :: (unit, nat) Suite] sys0)) = [''No tests matched filters.'' @ nl] \<and>
   calls (snd (tc_main (\<lambda>p x. ''?'') [''tests'', ''--suite'', ''Nope'']
     [tc_suite ''A'' [\<lparr>name = ''t1'', fn = Some (\<lambda>e w. (tc_pass, w)), skip_reason = None\<rparr>]
      :: (unit, nat) Suite] sys0)) = []"

proof -
  define suites :: "(unit, nat) Suite list" where
    "suites = [tc_suite ''A'' [\<lparr>name = ''t1'', fn = Some (\<lambda>e w. (tc_pass, w)), skip_reason = None\<rparr>]]"
  define opts where "opts = tc__no_options\<lparr>suite_filter := Some ''Nope''\<rparr>"
  have h: "tc__parse_args (drop 1 [''tests'', ''--suite'', ''Nope'']) tc__no_options = Some opts \<and>
    \<not> list_only opts \<and>
    (case xml_file opts of None \<Rightarrow> True | Some path \<Rightarrow> creatable sys0 path) \<and>
    tc__filter_suites suites opts [] = []"
    using TC_MAX_SUITES_pos
    by (simp add: opts_def suites_def no_options_fields tc_suite_def tc_suite_with_fields)
  have "fst (tc_main (\<lambda>p x. ''?'') [''tests'', ''--suite'', ''Nope''] suites sys0) = 1 \<and>
      stdout (snd (tc_main (\<lambda>p x. ''?'') [''tests'', ''--suite'', ''Nope''] suites sys0)) =
        stdout sys0 @ [''No tests matched filters.'' @ nl] \<and>
      stderr (snd (tc_main (\<lambda>p x. ''?'') [''tests'', ''--suite'', ''Nope''] suites sys0)) = stderr sys0 \<and>
      calls (snd (tc_main (\<lambda>p x. ''?'') [''tests'', ''--suite'', ''Nope''] suites sys0)) = calls sys0 \<and>
      world (snd (tc_main (\<lambda>p x. ''?'') [''tests'', ''--suite'', ''Nope''] suites sys0)) = world sys0"
    using no_tests_matched[of "[''tests'', ''--suite'', ''Nope'']" opts sys0 suites "\<lambda>p x. ''?''"] h
    by blast
  then have "fst (tc_main (\<lambda>p x. ''?'') [''tests'', ''--suite'', ''Nope''] suites sys0) = 1 \<and>
      stdout (snd (tc_main (\<lambda>p x. ''?'') [''tests'', ''--suite'', ''Nope''] suites sys0)) =
        [''No tests matched filters.'' @ nl] \<and>
      calls (snd (tc_main (\<lambda>p x. ''?'') [''tests'', ''--suite'', ''Nope''] suites sys0)) = []"
    by (simp add: sys0_def)
  then show ?thesis unfolding suites_def .

qed

text \<open>
  Claim C5 as stated fails: a run on an empty suite collection with no filter returns the
  same exit code and leaves the same state (the same output) as a run whose filter matched
  nothing.
\<close>

theorem no_tests_matched_counterexample:
  "tc_main (\<lambda>p x. ''?'') [''tests''] ([] :: (unit, nat) Suite list) sys0 =
   tc_main (\<lambda>p x. ''?'') [''tests'', ''--suite'', ''Nope'']
     [tc_suite ''A'' [\<lparr>name = ''t1'', fn = Some (\<lambda>e w. (tc_pass, w)), skip_reason = None\<rparr>]
      :: (unit, nat) Suite] sys0"
  using TC_MAX_SUITES_pos
  by (simp add: tc_main_def tc__main_run_def no_options_fields tc_suite_def tc_suite_with_fields
      tc__no_options_def)

text \<open>
  Claim C6, as amended. If the argument loop meets \<open>--help\<close> or \<open>-h\<close>, \<open>tc_main\<close>
  prints the usage and returns 0, whatever else was given. Otherwise, when the loop has
  recorded \<open>--xml path\<close>: if the file cannot be created, \<open>tc_main\<close> returns 1 at once,
  having written one line to the standard error and nothing else (no user function is
  called, no file is written); if it can be created, the rest of \<open>tc_main\<close> (listing,
  filtering, the run, the reports) starts in a state where the file exists and is empty.
  The loop records the path that follows \<open>--xml\<close>.
\<close>

theorem xml_precreate:
  \<open>(tc__parse_args (drop 1 argv) tc__no_options = None \<longrightarrow>
      tc_main ff argv suites s = (0, tc__print_help (argv ! 0) s)) \<and>
   (tc__parse_args (drop 1 argv) tc__no_options = Some opts \<and> xml_file opts = Some path \<and>
    \<not> creatable s path \<longrightarrow>
      tc_main ff argv suites s =
        (1, eprintf (''Error: Cannot create XML file '' @ [CHR 0x27] @ path @ [CHR 0x27] @ nl) s) \<and>
      fst (tc_main ff argv suites s) = 1 \<and>
      calls (snd (tc_main ff argv suites s)) = calls s \<and>
      world (snd (tc_main ff argv suites s)) = world s \<and>
      stdout (snd (tc_main ff argv suites s)) = stdout s \<and>
      files (snd (tc_main ff argv suites s)) = files s) \<and>
   (tc__parse_args (drop 1 argv) tc__no_options = Some opts \<and> xml_file opts = Some path \<and>
    creatable s path \<longrightarrow>
      tc_main ff argv suites s =
        tc__main_run ff opts suites (s\<lparr>files := (files s)(path \<mapsto> [])\<rparr>) \<and>
      files (s\<lparr>files := (files s)(path \<mapsto> [])\<rparr>) path = Some []) \<and>
   tc__parse_args (''--xml'' # path # rest) opts =
     tc__parse_args rest (opts\<lparr>xml_file := Some path\<rparr>)\<close>
  by (simp add: tc_main_def eprintf_def)

text \<open>
  The theorem at a path that cannot be created and at one that can.
\<close>

theorem xml_precreate_witness:
  \<open>fst (tc_main (\<lambda>p x. ''?'') [''tests'', ''--xml'', ''/nonexistent/out.xml'']
     [tc_suite ''A'' [\<lparr>name = ''t1'', fn = Some (\<lambda>e w. (tc_pass, w)), skip_reason = None\<rparr>]
      :: (unit, nat) Suite] sys0) = 1 \<and>
   calls (snd (tc_main (\<lambda>p x. ''?'') [''tests'', ''--xml'', ''/nonexistent/out.xml'']
     [tc_suite ''A'' [\<lparr>name = ''t1'', fn = Some (\<lambda>e w. (tc_pass, w)), skip_reason = None\<rparr>]
      :: (unit, nat) Suite] sys0)) = [] \<and>
   tc_main (\<lambda>p x. ''?'') [''tests'', ''--xml'', ''out.xml'']
     [tc_suite ''A'' [\<lparr>name = ''t1'', fn = Some (\<lambda>e w. (tc_pass, w)), skip_reason = None\<rparr>]
      :: (unit, nat) Suite] sys0 =
   tc__main_run (\<lambda>p x. ''?'') (tc__no_options\<lparr>xml_file := Some ''out.xml''\<rparr>)
     [tc_suite ''A'' [\<lparr>name = ''t1'', fn = Some (\<lambda>e w. (tc_pass, w)), skip_reason = None\<rparr>]
      :: (unit, nat) Suite] (sys0\<lparr>files := (files sys0)(''out.xml'' \<mapsto> [])\<rparr>)\<close>

proof -
  define suites :: "(unit, nat) Suite list" where
    "suites = [tc_suite ''A'' [\<lparr>name = ''t1'', fn = Some (\<lambda>e w. (tc_pass, w)), skip_reason = None\<rparr>]]"
  have p1: "tc__parse_args (drop 1 [''tests'', ''--xml'', ''/nonexistent/out.xml'']) tc__no_options =
      Some (tc__no_options\<lparr>xml_file := Some ''/nonexistent/out.xml''\<rparr>) \<and>
      xml_file (tc__no_options\<lparr>xml_file := Some ''/nonexistent/out.xml''\<rparr>) = Some ''/nonexistent/out.xml'' \<and>
      \<not> creatable sys0 ''/nonexistent/out.xml''"
    by (simp add: sys0_def)
  have p2: "tc__parse_args (drop 1 [''tests'', ''--xml'', ''out.xml'']) tc__no_options =
      Some (tc__no_options\<lparr>xml_file := Some ''out.xml''\<rparr>) \<and>
      xml_file (tc__no_options\<lparr>xml_file := Some ''out.xml''\<rparr>) = Some ''out.xml'' \<and>
      creatable sys0 ''out.xml''"
    by (simp add: sys0_def)
  have a: "fst (tc_main (\<lambda>p x. ''?'') [''tests'', ''--xml'', ''/nonexistent/out.xml''] suites sys0) = 1 \<and>
      calls (snd (tc_main (\<lambda>p x. ''?'') [''tests'', ''--xml'', ''/nonexistent/out.xml''] suites sys0)) =
        calls sys0"
    using xml_precreate[of "[''tests'', ''--xml'', ''/nonexistent/out.xml'']" "\<lambda>p x. ''?''" suites sys0
        "tc__no_options\<lparr>xml_file := Some ''/nonexistent/out.xml''\<rparr>" "''/nonexistent/out.xml''"] p1
    by blast
  have b: "tc_main (\<lambda>p x. ''?'') [''tests'', ''--xml'', ''out.xml''] suites sys0 =
      tc__main_run (\<lambda>p x. ''?'') (tc__no_options\<lparr>xml_file := Some ''out.xml''\<rparr>) suites
        (sys0\<lparr>files := (files sys0)(''out.xml'' \<mapsto> [])\<rparr>)"
    using xml_precreate[of "[''tests'', ''--xml'', ''out.xml'']" "\<lambda>p x. ''?''" suites sys0
        "tc__no_options\<lparr>xml_file := Some ''out.xml''\<rparr>" "''out.xml''"] p2
    by blast
  have c: "calls sys0 = []" by (simp add: sys0_def)
  show ?thesis
    using a b unfolding c suites_def by blast

qed

text \<open>
  Claim C6 as stated fails when \<open>--help\<close> follows: the file cannot be created and the
  invocation returns 0.
\<close>

theorem xml_precreate_counterexample:
  "\<not> creatable sys0 ''/nonexistent/out.xml'' \<and>
   fst (tc_main (\<lambda>p x. ''?'') [''tests'', ''--xml'', ''/nonexistent/out.xml'', ''--help'']
     [tc_suite ''A'' [\<lparr>name = ''t1'', fn = Some (\<lambda>e w. (tc_pass, w)), skip_reason = None\<rparr>]
      :: (unit, nat) Suite] sys0) = 0"
  by (simp add: tc_main_def sys0_def)

end
